theory Spec2Isabelle
  imports Complex_Main "HOL-Library.Log_Nat" "HOL-Library.Sublist"
begin

section \<open>Python values\<close>

text \<open>
  The client of \<^verbatim>\<open>github_client.py\<close> works on parsed JSON and on caller-supplied values
  of type \<^verbatim>\<open>Any\<close>. A value is \<^verbatim>\<open>None\<close>, a \<^verbatim>\<open>bool\<close>, an unbounded \<^verbatim>\<open>int\<close>, a
  \<^verbatim>\<open>float\<close>, a \<^verbatim>\<open>str\<close>, a \<^verbatim>\<open>list\<close> or a \<^verbatim>\<open>dict\<close>. A dict keeps its entries in
  insertion order, so it is an association list. A finite float is the real number it
  denotes; infinities and NaN are not represented.
\<close>

datatype pyval =
    PNone
  | PBool bool
  | PInt int
  | PFloat real
  | PStr string
  | PList "pyval list"
  | PDict "(pyval \<times> pyval) list"

text \<open>
  The exceptions that can leave the client: its own \<^verbatim>\<open>GitHubClientError\<close> with its message,
  and the built-in exceptions Python raises on an ill-typed access or conversion.
\<close>

datatype pyerror =
    GitHubClientError string
  | AttributeError
  | TypeError
  | KeyError string
  | OverflowError

definition bindE :: "pyerror + 'a \<Rightarrow> ('a \<Rightarrow> pyerror + 'b) \<Rightarrow> pyerror + 'b" where
  "bindE m f = (case m of Inl e \<Rightarrow> Inl e | Inr v \<Rightarrow> f v)"

text \<open>Truth value testing: \<^verbatim>\<open>bool(v)\<close>, as used by \<^verbatim>\<open>if v\<close>, \<^verbatim>\<open>not v\<close>, \<^verbatim>\<open>and\<close>, \<^verbatim>\<open>or\<close>.\<close>

fun truthy :: "pyval \<Rightarrow> bool" where
  "truthy PNone = False"
| "truthy (PBool b) = b"
| "truthy (PInt n) = (n \<noteq> 0)"
| "truthy (PFloat x) = (x \<noteq> 0)"
| "truthy (PStr s) = (s \<noteq> [])"
| "truthy (PList xs) = (xs \<noteq> [])"
| "truthy (PDict kvs) = (kvs \<noteq> [])"

text \<open>\<^verbatim>\<open>obj.get(key, default)\<close> with a string key: only a dict has the method.\<close>

fun py_get :: "pyval \<Rightarrow> string \<Rightarrow> pyval \<Rightarrow> pyerror + pyval" where
  "py_get (PDict kvs) k d = Inr (case map_of kvs (PStr k) of Some v \<Rightarrow> v | None \<Rightarrow> d)"
| "py_get PNone k d = Inl AttributeError"
| "py_get (PBool b) k d = Inl AttributeError"
| "py_get (PInt n) k d = Inl AttributeError"
| "py_get (PFloat x) k d = Inl AttributeError"
| "py_get (PStr s) k d = Inl AttributeError"
| "py_get (PList xs) k d = Inl AttributeError"

text \<open>
  \<^verbatim>\<open>obj[key]\<close> with a string key: a dict raises \<^verbatim>\<open>KeyError\<close> on a missing key; a list and
  a string want integer indices, and the other values are not subscriptable.
\<close>

fun py_item :: "pyval \<Rightarrow> string \<Rightarrow> pyerror + pyval" where
  "py_item (PDict kvs) k = (case map_of kvs (PStr k) of Some v \<Rightarrow> Inr v | None \<Rightarrow> Inl (KeyError k))"
| "py_item PNone k = Inl TypeError"
| "py_item (PBool b) k = Inl TypeError"
| "py_item (PInt n) k = Inl TypeError"
| "py_item (PFloat x) k = Inl TypeError"
| "py_item (PStr s) k = Inl TypeError"
| "py_item (PList xs) k = Inl TypeError"

text \<open>
  \<^verbatim>\<open>key in obj\<close> with a string key: a key of a dict, an element of a list, a substring of
  a string; the other values are not containers.
\<close>

fun py_contains :: "string \<Rightarrow> pyval \<Rightarrow> pyerror + bool" where
  "py_contains k (PDict kvs) = Inr (map_of kvs (PStr k) \<noteq> None)"
| "py_contains k (PList xs) = Inr (PStr k \<in> set xs)"
| "py_contains k (PStr s) = Inr (sublist k s)"
| "py_contains k PNone = Inl TypeError"
| "py_contains k (PBool b) = Inl TypeError"
| "py_contains k (PInt n) = Inl TypeError"
| "py_contains k (PFloat x) = Inl TypeError"

text \<open>
  \<^verbatim>\<open>for x in obj\<close>: the elements of a list, the keys of a dict, the characters of a string.
\<close>

fun py_iter :: "pyval \<Rightarrow> pyerror + pyval list" where
  "py_iter (PList xs) = Inr xs"
| "py_iter (PDict kvs) = Inr (map fst kvs)"
| "py_iter (PStr s) = Inr (map (\<lambda>c. PStr [c]) s)"
| "py_iter PNone = Inl TypeError"
| "py_iter (PBool b) = Inl TypeError"
| "py_iter (PInt n) = Inl TypeError"
| "py_iter (PFloat x) = Inl TypeError"

text \<open>
  Keys of a dict compare with \<^verbatim>\<open>==\<close>: numbers (booleans included) by value, everything
  else by identity of type and content. Lists and dicts are unhashable.
\<close>

fun num_of :: "pyval \<Rightarrow> real option" where
  "num_of (PBool b) = Some (if b then 1 else 0)"
| "num_of (PInt n) = Some (real_of_int n)"
| "num_of (PFloat x) = Some x"
| "num_of PNone = None"
| "num_of (PStr s) = None"
| "num_of (PList xs) = None"
| "num_of (PDict kvs) = None"

definition key_eq :: "pyval \<Rightarrow> pyval \<Rightarrow> bool" where
  "key_eq a b = (case (num_of a, num_of b) of
      (Some x, Some y) \<Rightarrow> x = y
    | (None, None) \<Rightarrow> a = b
    | (Some x, None) \<Rightarrow> False
    | (None, Some y) \<Rightarrow> False)"

fun hashable :: "pyval \<Rightarrow> bool" where
  "hashable (PList xs) = False"
| "hashable (PDict kvs) = False"
| "hashable PNone = True"
| "hashable (PBool b) = True"
| "hashable (PInt n) = True"
| "hashable (PFloat x) = True"
| "hashable (PStr s) = True"

text \<open>
  \<^verbatim>\<open>d[key] = value\<close> on a dict: an existing key keeps its place and takes the new
  value, a new key is appended.
\<close>

fun dict_set :: "pyval \<Rightarrow> pyval \<Rightarrow> (pyval \<times> pyval) list \<Rightarrow> (pyval \<times> pyval) list" where
  "dict_set k v [] = [(k, v)]"
| "dict_set k v ((k', v') # kvs) =
     (if key_eq k' k then (k', v) # kvs else (k', v') # dict_set k v kvs)"

definition py_setitem :: "(pyval \<times> pyval) list \<Rightarrow> pyval \<Rightarrow> pyval \<Rightarrow> pyerror + (pyval \<times> pyval) list" where
  "py_setitem kvs k v = (if hashable k then Inr (dict_set k v kvs) else Inl TypeError)"

subsection \<open>Conversions\<close>

text \<open>Decimal digits of a natural number, and \<^verbatim>\<open>str\<close> of an int.\<close>

fun digits :: "nat \<Rightarrow> string" where
  "digits n = (if n < 10 then [''0123456789'' ! n] else digits (n div 10) @ [''0123456789'' ! (n mod 10)])"

declare digits.simps [simp del]

definition show_int :: "int \<Rightarrow> string" where
  "show_int n = (if n < 0 then CHR ''-'' # digits (nat (- n)) else digits (nat n))"

text \<open>
  \<^verbatim>\<open>float(n)\<close> of an int: the nearest double, ties to the even significand of 53 bits;
  \<^verbatim>\<open>OverflowError\<close> when the rounded magnitude reaches \<open>2 ^ 1024\<close>.
\<close>

definition round_to_double :: "int \<Rightarrow> int" where
  "round_to_double a =
     (let e = bitlen a - 53 in
      if e \<le> 0 then a
      else
        let q = a div 2 ^ nat e; r = a mod 2 ^ nat e; half = 2 ^ nat (e - 1) in
        (if r > half \<or> (r = half \<and> odd q) then q + 1 else q) * 2 ^ nat e)"

definition float_of_int :: "int \<Rightarrow> pyerror + real" where
  "float_of_int n =
     (let m = round_to_double \<bar>n\<bar> in
      if m \<ge> 2 ^ 1024 then Inl OverflowError
      else Inr (real_of_int (sgn n * m)))"

text \<open>\<^verbatim>\<open>float(value)\<close> for a value that passed \<^verbatim>\<open>isinstance(value, (int, float))\<close>.\<close>

fun py_float :: "pyval \<Rightarrow> pyerror + real" where
  "py_float (PBool b) = Inr (if b then 1 else 0)"
| "py_float (PInt n) = float_of_int n"
| "py_float (PFloat x) = Inr x"
| "py_float PNone = Inl TypeError"
| "py_float (PStr s) = Inl TypeError"
| "py_float (PList xs) = Inl TypeError"
| "py_float (PDict kvs) = Inl TypeError"

fun is_str :: "pyval \<Rightarrow> bool" where
  "is_str (PStr s) = True"
| "is_str PNone = False"
| "is_str (PBool b) = False"
| "is_str (PInt n) = False"
| "is_str (PFloat x) = False"
| "is_str (PList xs) = False"
| "is_str (PDict kvs) = False"

text \<open>\<^verbatim>\<open>isinstance(value, (int, float))\<close>: \<^verbatim>\<open>bool\<close> is a subclass of \<^verbatim>\<open>int\<close>.\<close>

fun is_int_or_float :: "pyval \<Rightarrow> bool" where
  "is_int_or_float (PBool b) = True"
| "is_int_or_float (PInt n) = True"
| "is_int_or_float (PFloat x) = True"
| "is_int_or_float PNone = False"
| "is_int_or_float (PStr s) = False"
| "is_int_or_float (PList xs) = False"
| "is_int_or_float (PDict kvs) = False"

section \<open>The transport\<close>

text \<open>
  Every query text of the client is fixed; a request is identified by the operation name
  in its GraphQL text, together with the variables sent.
\<close>

datatype operation =
    GetOwnerType
  | GetOrgProjects
  | GetUserProjects
  | GetProjectId
  | GetProjectFields
  | GetProjectItems
  | GetRepositoryId
  | CreateIssue
  | GetIssueId
  | AddItemToProject
  | AddDraftIssueToProject
  | UpdateProjectFieldValue
  | DeleteProjectItem
  | UpdateProject

type_synonym request = "operation \<times> pyval"

text \<open>
  What one \<^verbatim>\<open>client.post\<close> with \<^verbatim>\<open>raise_for_status\<close> and \<^verbatim>\<open>response.json()\<close> comes to:
  an exception other than \<^verbatim>\<open>HTTPStatusError\<close> (connection failure, timeout, a body that is
  not JSON) with its text, an \<^verbatim>\<open>HTTPStatusError\<close> with the status code and the response
  text, or the parsed body.
\<close>

datatype http_outcome =
    Raised string
  | StatusError int string
  | Body pyval

text \<open>
  The surroundings of the client: the endpoint, which answers a request given the requests
  sent before it, and two renderings of the Python runtime that are no part of the
  repository: \<^verbatim>\<open>repr\<close> of floats, lists and dicts, and \<^verbatim>\<open>str(e)\<close> of a built-in exception.
\<close>

record env =
  post :: "request list \<Rightarrow> request \<Rightarrow> http_outcome"
  repr :: "pyval \<Rightarrow> string"
  exc_text :: "pyerror \<Rightarrow> string"

fun py_str :: "env \<Rightarrow> pyval \<Rightarrow> string" where
  "py_str E (PStr s) = s"
| "py_str E PNone = ''None''"
| "py_str E (PBool b) = (if b then ''True'' else ''False'')"
| "py_str E (PInt n) = show_int n"
| "py_str E (PFloat x) = repr E (PFloat x)"
| "py_str E (PList xs) = repr E (PList xs)"
| "py_str E (PDict kvs) = repr E (PDict kvs)"

fun exc_str :: "env \<Rightarrow> pyerror \<Rightarrow> string" where
  "exc_str E (GitHubClientError m) = m"
| "exc_str E AttributeError = exc_text E AttributeError"
| "exc_str E TypeError = exc_text E TypeError"
| "exc_str E (KeyError k) = exc_text E (KeyError k)"
| "exc_str E OverflowError = exc_text E OverflowError"

text \<open>
  A computation of the client threads the list of requests sent so far and ends in an
  exception or a value. Logging has no effect on either and is left out.
\<close>

type_synonym 'a action = "request list \<Rightarrow> (pyerror + 'a) \<times> request list"

definition bindS :: "'a action \<Rightarrow> ('a \<Rightarrow> 'b action) \<Rightarrow> 'b action" where
  "bindS m f sent = (case m sent of (Inl e, sent') \<Rightarrow> (Inl e, sent') | (Inr v, sent') \<Rightarrow> f v sent')"

definition pureS :: "pyerror + 'a \<Rightarrow> 'a action" where
  "pureS r sent = (r, sent)"

text \<open>
  \<^verbatim>\<open>execute_query\<close>, lines 67 to 78: the checks on the parsed body, inside the
  \<^verbatim>\<open>try\<close> block.
\<close>

definition body_data :: "env \<Rightarrow> pyval \<Rightarrow> pyerror + pyval" where
  "body_data E result =
     bindE (py_contains ''errors'' result) (\<lambda>has_errors.
       if has_errors then
         bindE (py_item result ''errors'') (\<lambda>errors.
           Inl (GitHubClientError (''GraphQL query errors: '' @ py_str E errors)))
       else
         bindE (py_get result ''data'' PNone) (\<lambda>data.
           if data = PNone then Inl (GitHubClientError ''GraphQL query returned no data and no errors.'')
           else Inr data))"

text \<open>
  \<^verbatim>\<open>except Exception as e\<close>: whatever was raised inside the block, a
  \<^verbatim>\<open>GitHubClientError\<close> included, is raised again as a \<^verbatim>\<open>GitHubClientError\<close>.
\<close>

definition except_Exception :: "env \<Rightarrow> pyerror + pyval \<Rightarrow> pyerror + pyval" where
  "except_Exception E r =
     (case r of
        Inl e \<Rightarrow> Inl (GitHubClientError (''Unexpected error executing GraphQL query: '' @ exc_str E e))
      | Inr v \<Rightarrow> Inr v)"

definition execute_query :: "env \<Rightarrow> operation \<Rightarrow> pyval \<Rightarrow> pyval action" where
  "execute_query E query variables sent =
     (let query_variables = (if truthy variables then variables else PDict []);
          payload = (query, query_variables)
      in (case post E sent payload of
            Raised text \<Rightarrow>
              Inl (GitHubClientError (''Unexpected error executing GraphQL query: '' @ text))
          | StatusError status_code text \<Rightarrow>
              Inl (GitHubClientError (''HTTP error executing GraphQL query: '' @ show_int status_code @ '' - '' @ text))
          | Body result \<Rightarrow> except_Exception E (body_data E result),
          sent @ [payload]))"

section \<open>The client\<close>

text \<open>\<^verbatim>\<open>result[k1][k2]...\<close>\<close>

fun py_path :: "pyval \<Rightarrow> string list \<Rightarrow> pyerror + pyval" where
  "py_path v [] = Inr v"
| "py_path v (k # ks) = bindE (py_item v k) (\<lambda>w. py_path w ks)"

text \<open>
  The test \<^verbatim>\<open>not result.get(k1) or not result[k1].get(k2)\<close>, evaluated left to right.
\<close>

definition absent2 :: "pyval \<Rightarrow> string \<Rightarrow> string \<Rightarrow> pyerror + bool" where
  "absent2 result k1 k2 =
     bindE (py_get result k1 PNone) (\<lambda>a.
       if \<not> truthy a then Inr True
       else bindE (py_item result k1) (\<lambda>b.
              bindE (py_get b k2 PNone) (\<lambda>c. Inr (\<not> truthy c))))"

text \<open>
  The step every operation ends with: raise \<^verbatim>\<open>GitHubClientError(message)\<close> when that test
  holds, return \<^verbatim>\<open>result[k1][k2]...\<close> otherwise.
\<close>

definition require2 :: "pyval \<Rightarrow> string \<Rightarrow> string \<Rightarrow> string \<Rightarrow> string list \<Rightarrow> pyerror + pyval" where
  "require2 result k1 k2 message path =
     bindE (absent2 result k1 k2) (\<lambda>missing.
       if missing then Inl (GitHubClientError message) else py_path result path)"

subsection \<open>\<^verbatim>\<open>get_projects\<close>\<close>

text \<open>Lines 124 to 137: the owner type and the owner id from the first response.\<close>

definition owner_type_of :: "string \<Rightarrow> pyval \<Rightarrow> pyerror + (string \<times> pyval)" where
  "owner_type_of owner result =
     bindE (py_get result ''organization'' PNone) (\<lambda>org.
       if truthy org then
         bindE (py_path result [''organization'', ''id'']) (\<lambda>owner_id. Inr (''organization'', owner_id))
       else
         bindE (py_get result ''user'' PNone) (\<lambda>usr.
           if truthy usr then
             bindE (py_path result [''user'', ''id'']) (\<lambda>owner_id. Inr (''user'', owner_id))
           else Inl (GitHubClientError (''Owner '' @ owner @ '' not found or type could not be determined.''))))"

definition projects_variables :: "string \<Rightarrow> pyval" where
  "projects_variables owner = PDict [(PStr ''login'', PStr owner), (PStr ''first'', PInt 50)]"

definition get_projects :: "env \<Rightarrow> string \<Rightarrow> pyval action" where
  "get_projects E owner =
     bindS (execute_query E GetOwnerType (PDict [(PStr ''login'', PStr owner)])) (\<lambda>result.
     bindS (pureS (owner_type_of owner result)) (\<lambda>(owner_type, owner_id).
       if owner_type = ''organization'' then
         bindS (execute_query E GetOrgProjects (projects_variables owner)) (\<lambda>result.
           pureS (require2 result ''organization'' ''projectsV2''
             (''Could not retrieve projects for organization '' @ owner)
             [''organization'', ''projectsV2'', ''nodes'']))
       else if owner_type = ''user'' then
         bindS (execute_query E GetUserProjects (projects_variables owner)) (\<lambda>result.
           pureS (require2 result ''user'' ''projectsV2''
             (''Could not retrieve projects for user '' @ owner)
             [''user'', ''projectsV2'', ''nodes'']))
       else pureS (Inl (GitHubClientError (''Unexpected error retrieving projects for '' @ owner)))))"

subsection \<open>\<^verbatim>\<open>get_project_node_id\<close>\<close>

text \<open>Lines 248 to 255.\<close>

definition project_id_of :: "string \<Rightarrow> int \<Rightarrow> pyval \<Rightarrow> pyerror + pyval" where
  "project_id_of owner project_number result =
     bindE (absent2 result ''organization'' ''projectV2'') (\<lambda>no_org.
       if \<not> no_org then py_path result [''organization'', ''projectV2'', ''id'']
       else
         bindE (absent2 result ''user'' ''projectV2'') (\<lambda>no_user.
           if \<not> no_user then py_path result [''user'', ''projectV2'', ''id'']
           else Inl (GitHubClientError
             (''Project '' @ show_int project_number @ '' not found for owner '' @ owner @ ''.''))))"

definition get_project_node_id :: "env \<Rightarrow> string \<Rightarrow> int \<Rightarrow> pyval action" where
  "get_project_node_id E owner project_number =
     bindS (execute_query E GetProjectId
              (PDict [(PStr ''login'', PStr owner), (PStr ''number'', PInt project_number)])) (\<lambda>result.
       pureS (project_id_of owner project_number result))"

text \<open>The request it sends.\<close>

definition project_id_request :: "string \<Rightarrow> int \<Rightarrow> request" where
  "project_id_request owner project_number =
     (GetProjectId, PDict [(PStr ''login'', PStr owner), (PStr ''number'', PInt project_number)])"

subsection \<open>\<^verbatim>\<open>get_project_fields\<close>\<close>

definition get_project_fields :: "env \<Rightarrow> string \<Rightarrow> int \<Rightarrow> pyval action" where
  "get_project_fields E owner project_number =
     bindS (get_project_node_id E owner project_number) (\<lambda>project_id.
     bindS (execute_query E GetProjectFields (PDict [(PStr ''projectId'', project_id)])) (\<lambda>result.
       pureS (require2 result ''node'' ''fields''
         (''Could not retrieve fields for project '' @ owner @ ''/'' @ show_int project_number)
         [''node'', ''fields'', ''nodes''])))"

subsection \<open>\<^verbatim>\<open>get_project_items\<close>\<close>

text \<open>
  Lines 477 to 490, the body of the inner loop up to the assignment: the field name and
  the value of one field-value record.
\<close>

definition field_value_entry :: "env \<Rightarrow> pyval \<Rightarrow> pyerror + (pyval \<times> pyval)" where
  "field_value_entry E fv =
     bindE (py_get fv ''field'' (PDict [])) (\<lambda>field.
     bindE (py_get field ''name'' (PStr ''UnknownField'')) (\<lambda>field_name.
     bindE (py_get fv ''__typename'' PNone) (\<lambda>fv_type.
     bindE
       (if fv_type = PStr ''ProjectV2ItemFieldTextValue'' then py_get fv ''text'' (PStr ''N/A'')
        else if fv_type = PStr ''ProjectV2ItemFieldDateValue'' then py_get fv ''date'' (PStr ''N/A'')
        else if fv_type = PStr ''ProjectV2ItemFieldSingleSelectValue'' then py_get fv ''name'' (PStr ''N/A'')
        else if fv_type = PStr ''ProjectV2ItemFieldNumberValue'' then py_get fv ''number'' (PStr ''N/A'')
        else if fv_type = PStr ''ProjectV2ItemFieldIterationValue'' then
          bindE (py_get fv ''title'' (PStr ''N/A'')) (\<lambda>title.
          bindE (py_get fv ''startDate'' (PStr ''N/A'')) (\<lambda>start_date.
            Inr (PStr (py_str E title @ '' (Start: '' @ py_str E start_date @ '')''))))
        else Inr (PStr ''N/A''))
       (\<lambda>value. Inr (field_name, value)))))"

text \<open>The inner loop, with \<^verbatim>\<open>processed_values\<close> as its accumulator.\<close>

fun process_field_values :: "env \<Rightarrow> pyval list \<Rightarrow> (pyval \<times> pyval) list \<Rightarrow> pyerror + (pyval \<times> pyval) list" where
  "process_field_values E [] processed_values = Inr processed_values"
| "process_field_values E (fv # fvs) processed_values =
     bindE (field_value_entry E fv) (\<lambda>(field_name, value).
     bindE (py_setitem processed_values field_name value) (\<lambda>processed_values'.
       process_field_values E fvs processed_values'))"

text \<open>\<^verbatim>\<open>obj[key] = value\<close>: only a dict takes a string key.\<close>

fun py_assign :: "pyval \<Rightarrow> pyval \<Rightarrow> pyval \<Rightarrow> pyerror + pyval" where
  "py_assign (PDict kvs) k v = bindE (py_setitem kvs k v) (\<lambda>kvs'. Inr (PDict kvs'))"
| "py_assign PNone k v = Inl TypeError"
| "py_assign (PBool b) k v = Inl TypeError"
| "py_assign (PInt n) k v = Inl TypeError"
| "py_assign (PFloat x) k v = Inl TypeError"
| "py_assign (PStr s) k v = Inl TypeError"
| "py_assign (PList xs) k v = Inl TypeError"

text \<open>Lines 474 to 494, the body of the outer loop: the item after the step.\<close>

definition process_item :: "env \<Rightarrow> pyval \<Rightarrow> pyerror + pyval" where
  "process_item E item =
     bindE (py_get item ''fieldValues'' PNone) (\<lambda>field_values.
       if \<not> truthy field_values then Inr item
       else
         bindE (py_item item ''fieldValues'') (\<lambda>field_values.
         bindE (py_get field_values ''nodes'' PNone) (\<lambda>nodes.
           if \<not> truthy nodes then Inr item
           else
             bindE (py_path item [''fieldValues'', ''nodes'']) (\<lambda>nodes.
             bindE (py_iter nodes) (\<lambda>fvs.
             bindE (process_field_values E fvs []) (\<lambda>processed_values.
               py_assign item (PStr ''fieldValues'') (PDict processed_values)))))))"

fun process_items :: "env \<Rightarrow> pyval list \<Rightarrow> pyerror + pyval list" where
  "process_items E [] = Inr []"
| "process_items E (item # items) =
     bindE (process_item E item) (\<lambda>item'.
     bindE (process_items E items) (\<lambda>items'. Inr (item' # items')))"

text \<open>
  Lines 473 to 496: the loop over \<^verbatim>\<open>items\<close> changes the items of a list in place; iterating
  a dict or a string changes nothing of the object, which is then returned as it is.
\<close>

definition normalize_items :: "env \<Rightarrow> pyval \<Rightarrow> pyerror + pyval" where
  "normalize_items E items =
     bindE (py_iter items) (\<lambda>xs.
     bindE (process_items E xs) (\<lambda>ys.
       (case items of PList _ \<Rightarrow> Inr (PList ys) | _ \<Rightarrow> Inr items)))"

definition get_project_items :: "env \<Rightarrow> string \<Rightarrow> int \<Rightarrow> int \<Rightarrow> pyval action" where
  "get_project_items E owner project_number limit =
     bindS (get_project_node_id E owner project_number) (\<lambda>project_id.
     bindS (execute_query E GetProjectItems
              (PDict [(PStr ''projectId'', project_id), (PStr ''first'', PInt limit)])) (\<lambda>result.
       pureS (bindE (require2 result ''node'' ''items''
                (''Could not retrieve items for project '' @ owner @ ''/'' @ show_int project_number)
                [''node'', ''items'', ''nodes''])
              (normalize_items E))))"

subsection \<open>\<^verbatim>\<open>create_issue\<close>\<close>

definition create_issue :: "env \<Rightarrow> string \<Rightarrow> string \<Rightarrow> string \<Rightarrow> string \<Rightarrow> pyval action" where
  "create_issue E owner repo title body =
     bindS (execute_query E GetRepositoryId
              (PDict [(PStr ''owner'', PStr owner), (PStr ''name'', PStr repo)])) (\<lambda>repo_result.
     bindS (pureS (bindE (py_get repo_result ''repository'' PNone) (\<lambda>repository.
              if \<not> truthy repository
              then Inl (GitHubClientError (''Repository '' @ owner @ ''/'' @ repo @ '' not found''))
              else py_path repo_result [''repository'', ''id'']))) (\<lambda>repository_id.
     bindS (execute_query E CreateIssue
              (PDict [(PStr ''repositoryId'', repository_id), (PStr ''title'', PStr title),
                      (PStr ''body'', PStr body)])) (\<lambda>result.
       pureS (require2 result ''createIssue'' ''issue''
         (''Failed to create issue in '' @ owner @ ''/'' @ repo)
         [''createIssue'', ''issue'']))))"

subsection \<open>\<^verbatim>\<open>add_issue_to_project\<close>\<close>

definition add_issue_to_project :: "env \<Rightarrow> string \<Rightarrow> int \<Rightarrow> string \<Rightarrow> string \<Rightarrow> int \<Rightarrow> pyval action" where
  "add_issue_to_project E owner project_number issue_owner issue_repo issue_number =
     bindS (get_project_node_id E owner project_number) (\<lambda>project_id.
     bindS (execute_query E GetIssueId
              (PDict [(PStr ''owner'', PStr issue_owner), (PStr ''repo'', PStr issue_repo),
                      (PStr ''number'', PInt issue_number)])) (\<lambda>issue_result.
     bindS (pureS (require2 issue_result ''repository'' ''issue''
              (''Issue '' @ show_int issue_number @ '' not found in '' @ issue_owner @ ''/'' @ issue_repo)
              [''repository'', ''issue'', ''id''])) (\<lambda>issue_id.
     bindS (execute_query E AddItemToProject
              (PDict [(PStr ''projectId'', project_id), (PStr ''contentId'', issue_id)])) (\<lambda>result.
       pureS (require2 result ''addProjectV2ItemById'' ''item''
         (''Failed to add issue '' @ show_int issue_number @ '' to project '' @ show_int project_number)
         [''addProjectV2ItemById'', ''item''])))))"

subsection \<open>\<^verbatim>\<open>add_draft_issue_to_project\<close>\<close>

definition add_draft_issue_to_project :: "env \<Rightarrow> string \<Rightarrow> int \<Rightarrow> string \<Rightarrow> string \<Rightarrow> pyval action" where
  "add_draft_issue_to_project E owner project_number title body =
     bindS (get_project_node_id E owner project_number) (\<lambda>project_id.
     bindS (execute_query E AddDraftIssueToProject
              (PDict [(PStr ''projectId'', project_id), (PStr ''title'', PStr title),
                      (PStr ''body'', PStr body)])) (\<lambda>result.
       pureS (require2 result ''addProjectV2DraftIssue'' ''projectItem''
         (''Failed to add draft issue to project '' @ show_int project_number)
         [''addProjectV2DraftIssue'', ''projectItem''])))"

subsection \<open>\<^verbatim>\<open>update_project_item_field\<close>\<close>

text \<open>Lines 758 to 803: \<^verbatim>\<open>field_value_input\<close> from the field id and the value.\<close>

definition field_value_input :: "env \<Rightarrow> string \<Rightarrow> pyval \<Rightarrow> pyerror + pyval" where
  "field_value_input E field_id v =
     (if prefix ''PVTSSF_'' field_id then
        (if is_str v then Inr (PDict [(PStr ''singleSelectOptionId'', v)])
         else Inl (GitHubClientError (''Invalid value type for single select field '' @ field_id
                @ ''. Expected option ID string.'')))
      else if prefix ''PVTIF_'' field_id then
        (if is_str v then Inr (PDict [(PStr ''iterationId'', v)])
         else Inl (GitHubClientError (''Invalid value type for iteration field '' @ field_id
                @ ''. Expected iteration ID string.'')))
      else if prefix ''PVTF_'' field_id then
        (if is_str v then Inr (PDict [(PStr ''text'', v)])
         else Inr (PDict [(PStr ''text'', PStr (py_str E v))]))
      else if prefix ''PVTDF_'' field_id then
        (if is_str v then Inr (PDict [(PStr ''date'', v)])
         else Inl (GitHubClientError (''Invalid value type for date field '' @ field_id
                @ ''. Expected date string (YYYY-MM-DD).'')))
      else if prefix ''PVTNU_'' field_id then
        (if is_int_or_float v then
           bindE (py_float v) (\<lambda>x. Inr (PDict [(PStr ''number'', PFloat x)]))
         else Inl (GitHubClientError (''Invalid value type for number field '' @ field_id
                @ ''. Expected int or float.'')))
      else Inr (PDict [(PStr ''text'', PStr (py_str E v))]))"

definition update_project_item_field :: "env \<Rightarrow> string \<Rightarrow> int \<Rightarrow> string \<Rightarrow> string \<Rightarrow> pyval \<Rightarrow> pyval action" where
  "update_project_item_field E owner project_number item_id field_id v =
     bindS (get_project_node_id E owner project_number) (\<lambda>project_id.
     bindS (pureS (field_value_input E field_id v)) (\<lambda>field_value.
     bindS (execute_query E UpdateProjectFieldValue
              (PDict [(PStr ''projectId'', project_id), (PStr ''itemId'', PStr item_id),
                      (PStr ''fieldId'', PStr field_id), (PStr ''value'', field_value)])) (\<lambda>result.
       pureS (require2 result ''updateProjectV2ItemFieldValue'' ''projectV2Item''
         (''Failed to update field value for item '' @ item_id)
         [''updateProjectV2ItemFieldValue'', ''projectV2Item'']))))"

subsection \<open>\<^verbatim>\<open>delete_project_item\<close>\<close>

definition delete_project_item :: "env \<Rightarrow> string \<Rightarrow> int \<Rightarrow> string \<Rightarrow> pyval action" where
  "delete_project_item E owner project_number item_id =
     bindS (get_project_node_id E owner project_number) (\<lambda>project_id.
     bindS (execute_query E DeleteProjectItem
              (PDict [(PStr ''projectId'', project_id), (PStr ''itemId'', PStr item_id)])) (\<lambda>result.
       pureS (require2 result ''deleteProjectV2Item'' ''deletedItemId''
         (''Failed to delete item '' @ item_id)
         [''deleteProjectV2Item'', ''deletedItemId''])))"

subsection \<open>\<^verbatim>\<open>update_project_settings\<close>\<close>

text \<open>Lines 919 to 929: \<^verbatim>\<open>input_params\<close>, built by one assignment for each setting given.\<close>

definition input_params :: "pyval \<Rightarrow> string option \<Rightarrow> string option \<Rightarrow> bool option \<Rightarrow> (pyval \<times> pyval) list" where
  "input_params project_id title description public =
     (let p0 = [(PStr ''projectId'', project_id)];
          p1 = (case title of None \<Rightarrow> p0 | Some t \<Rightarrow> dict_set (PStr ''title'') (PStr t) p0);
          p2 = (case description of None \<Rightarrow> p1
                | Some d \<Rightarrow> dict_set (PStr ''shortDescription'') (PStr d) p1);
          p3 = (case public of None \<Rightarrow> p2 | Some b \<Rightarrow> dict_set (PStr ''public'') (PBool b) p2)
      in p3)"

definition update_project_settings :: "env \<Rightarrow> string \<Rightarrow> int \<Rightarrow> string option \<Rightarrow> string option \<Rightarrow> bool option \<Rightarrow> pyval action" where
  "update_project_settings E owner project_number title description public =
     bindS (get_project_node_id E owner project_number) (\<lambda>project_id.
     bindS (execute_query E UpdateProject
              (PDict [(PStr ''input'', PDict (input_params project_id title description public))])) (\<lambda>result.
       pureS (require2 result ''updateProjectV2'' ''projectV2''
         (''Failed to update project '' @ show_int project_number)
         [''updateProjectV2'', ''projectV2''])))"

section \<open>Shapes of responses\<close>

text \<open>
  The words of the specification about a response, as predicates on the data returned by
  \<^verbatim>\<open>execute_query\<close>. A branch \<open>k\<close> of a response is null when the key is missing or holds
  \<^verbatim>\<open>None\<close>; it resolves to a node with id \<open>i\<close> when it holds an object whose \<^verbatim>\<open>id\<close> is \<open>i\<close>
  (every lookup of the client selects \<^verbatim>\<open>id\<close>).
\<close>

definition is_null_at :: "pyval \<Rightarrow> string \<Rightarrow> bool" where
  "is_null_at result k = (py_get result k PNone = Inr PNone)"

definition node_at :: "pyval \<Rightarrow> string \<Rightarrow> pyval \<Rightarrow> bool" where
  "node_at result k i =
     (case py_get result k PNone of
        Inr (PDict kvs) \<Rightarrow> map_of kvs (PStr ''id'') = Some i
      | _ \<Rightarrow> False)"

text \<open>
  The nested payload \<open>k2\<close> under \<open>k1\<close>: missing or null (the branch \<open>k1\<close> is null, or it is an
  object without \<open>k2\<close> or with \<open>k2\<close> null), or present with the value \<open>p\<close>.
\<close>

definition absent_at :: "pyval \<Rightarrow> string \<Rightarrow> string \<Rightarrow> bool" where
  "absent_at result k1 k2 =
     (case py_get result k1 PNone of
        Inr PNone \<Rightarrow> True
      | Inr (PDict kvs) \<Rightarrow> (case map_of kvs (PStr k2) of None \<Rightarrow> True | Some v \<Rightarrow> v = PNone)
      | _ \<Rightarrow> False)"

definition payload_at :: "pyval \<Rightarrow> string \<Rightarrow> string \<Rightarrow> pyval \<Rightarrow> bool" where
  "payload_at result k1 k2 p =
     (case py_get result k1 PNone of
        Inr (PDict kvs) \<Rightarrow> map_of kvs (PStr k2) = Some p
      | _ \<Rightarrow> False)"

text \<open>
  The result \<open>r\<close> of an operation that ends with the check of a nested payload: the error
  with the message of the operation when the payload is missing or null, and for a payload
  \<open>p\<close> that is present, \<open>p\<close> itself when it is truthy and the same error when it is empty.
\<close>

definition checked_payload :: "pyval \<Rightarrow> string \<Rightarrow> string \<Rightarrow> string \<Rightarrow> pyval \<Rightarrow> pyerror + pyval \<Rightarrow> bool" where
  "checked_payload result k1 k2 message p r =
     ((absent_at result k1 k2 \<longrightarrow> r = Inl (GitHubClientError message))
    \<and> (payload_at result k1 k2 p \<longrightarrow>
         r = (if truthy p then Inr p else Inl (GitHubClientError message))))"

text \<open>
  A value of the wrong type for the prefix of a field id: the single-select, iteration and
  date prefixes want a string, the number prefix an int or a float, and the text prefix and
  an unknown prefix take every value.
\<close>

definition wrong_type :: "string \<Rightarrow> pyval \<Rightarrow> bool" where
  "wrong_type field_id v =
     (if prefix ''PVTSSF_'' field_id \<or> prefix ''PVTIF_'' field_id \<or> prefix ''PVTDF_'' field_id
      then \<not> is_str v
      else if prefix ''PVTNU_'' field_id then \<not> is_int_or_float v
      else False)"

definition invalid_input :: "pyerror + pyval \<Rightarrow> bool" where
  "invalid_input r =
     (case r of Inl (GitHubClientError m) \<Rightarrow> prefix ''Invalid value type for '' m | _ \<Rightarrow> False)"

subsection \<open>Field values by discriminator\<close>

text \<open>
  The table of the specification for one field-value record: the wire discriminator
  \<^verbatim>\<open>__typename\<close> is decoded to a variant, the variant selects the scalar. An entry missing
  from the record reads as the sentinel.
\<close>

datatype discriminator = Text | Date | SingleSelect | Number | Iteration | Unrecognized

definition discriminator_of :: "(pyval \<times> pyval) list \<Rightarrow> discriminator" where
  "discriminator_of kvs =
     (case map_of kvs (PStr ''__typename'') of
        Some (PStr t) \<Rightarrow>
          (if t = ''ProjectV2ItemFieldTextValue'' then Text
           else if t = ''ProjectV2ItemFieldDateValue'' then Date
           else if t = ''ProjectV2ItemFieldSingleSelectValue'' then SingleSelect
           else if t = ''ProjectV2ItemFieldNumberValue'' then Number
           else if t = ''ProjectV2ItemFieldIterationValue'' then Iteration
           else Unrecognized)
      | _ \<Rightarrow> Unrecognized)"

definition entry_or_sentinel :: "(pyval \<times> pyval) list \<Rightarrow> string \<Rightarrow> pyval" where
  "entry_or_sentinel kvs k = (case map_of kvs (PStr k) of Some v \<Rightarrow> v | None \<Rightarrow> PStr ''N/A'')"

definition scalar_by_discriminator :: "env \<Rightarrow> (pyval \<times> pyval) list \<Rightarrow> pyval" where
  "scalar_by_discriminator E kvs =
     (case discriminator_of kvs of
        Text \<Rightarrow> entry_or_sentinel kvs ''text''
      | Date \<Rightarrow> entry_or_sentinel kvs ''date''
      | SingleSelect \<Rightarrow> entry_or_sentinel kvs ''name''
      | Number \<Rightarrow> entry_or_sentinel kvs ''number''
      | Iteration \<Rightarrow>
          PStr (py_str E (entry_or_sentinel kvs ''title'') @ '' (Start: ''
                @ py_str E (entry_or_sentinel kvs ''startDate'') @ '')'')
      | Unrecognized \<Rightarrow> PStr ''N/A'')"

text \<open>
  The field name of a record: the \<^verbatim>\<open>name\<close> of its nested \<^verbatim>\<open>field\<close> reference, a string in
  a response of the endpoint; the sentinel when the reference or the name is missing.
\<close>

definition field_name_or_sentinel :: "(pyval \<times> pyval) list \<Rightarrow> string" where
  "field_name_or_sentinel kvs =
     (case map_of kvs (PStr ''field'') of
        Some (PDict f) \<Rightarrow> (case map_of f (PStr ''name'') of Some (PStr n) \<Rightarrow> n | _ \<Rightarrow> ''UnknownField'')
      | _ \<Rightarrow> ''UnknownField'')"

fun field_value_record :: "pyval \<Rightarrow> bool" where
  "field_value_record (PDict kvs) =
     (case map_of kvs (PStr ''field'') of
        None \<Rightarrow> True
      | Some (PDict f) \<Rightarrow> (case map_of f (PStr ''name'') of None \<Rightarrow> True | Some (PStr n) \<Rightarrow> True | Some _ \<Rightarrow> False)
      | Some _ \<Rightarrow> False)"
| "field_value_record PNone = False"
| "field_value_record (PBool b) = False"
| "field_value_record (PInt n) = False"
| "field_value_record (PFloat x) = False"
| "field_value_record (PStr s) = False"
| "field_value_record (PList xs) = False"

fun record_entry :: "env \<Rightarrow> pyval \<Rightarrow> string \<times> pyval" where
  "record_entry E (PDict kvs) = (field_name_or_sentinel kvs, scalar_by_discriminator E kvs)"
| "record_entry E v = (''UnknownField'', PStr ''N/A'')"

text \<open>
  The mapping from field names to scalars of a sequence of records, the last record of a
  name winning.
\<close>

definition field_mapping :: "env \<Rightarrow> pyval list \<Rightarrow> string \<Rightarrow> pyval option" where
  "field_mapping E fvs = map_of (rev (map (record_entry E) fvs))"

section \<open>Scripted endpoints\<close>

text \<open>
  An endpoint that answers the requests of one run with the outcomes of a list, in order,
  and the body of a response that carries data and no errors.
\<close>

definition scripted :: "http_outcome list \<Rightarrow> request list \<Rightarrow> request \<Rightarrow> http_outcome" where
  "scripted replies sent req =
     (if length sent < length replies then replies ! length sent else Raised ''connection refused'')"

definition scripted_env :: "http_outcome list \<Rightarrow> env" where
  "scripted_env replies =
     \<lparr>post = scripted replies, repr = (\<lambda>v. ''<repr>''), exc_text = (\<lambda>e. ''<exception>'')\<rparr>"

definition ok_body :: "pyval \<Rightarrow> http_outcome" where
  "ok_body data = Body (PDict [(PStr ''data'', data)])"

section \<open>Basic facts\<close>

lemma bindE_simps [simp]: "bindE (Inl e) f = Inl e" "bindE (Inr v) f = f v"
  by (simp_all add: bindE_def)

lemma key_eq_PStr [simp]: "key_eq (PStr a) b = (b = PStr a)" "key_eq b (PStr a) = (b = PStr a)"
  by (cases b; auto simp: key_eq_def)+

lemma bindS_Inr: "m sent = (Inr v, sent') \<Longrightarrow> bindS m f sent = f v sent'"
  by (simp add: bindS_def)

lemma bindS_Inl: "m sent = (Inl e, sent') \<Longrightarrow> bindS m f sent = (Inl e, sent')"
  by (simp add: bindS_def)

lemma bindS_pureS [simp]:
  "bindS (pureS (Inr v)) f = f v" "bindS (pureS (Inl e)) f = pureS (Inl e)"
  by (auto simp: bindS_def pureS_def)

lemma snd_execute_query [simp]:
  "snd (execute_query E q v sent) = sent @ [(q, if truthy v then v else PDict [])]"
  by (simp add: execute_query_def Let_def)

lemma snd_bindS_pureS: "snd (bindS m (\<lambda>v. pureS (g v)) sent) = snd (m sent)"
  by (auto simp: bindS_def pureS_def split: prod.splits sum.splits)

lemma snd_get_project_node_id:
  "snd (get_project_node_id E owner n sent) = sent @ [project_id_request owner n]"
  by (simp add: get_project_node_id_def snd_bindS_pureS project_id_request_def)

lemma execute_query_sent:
  "execute_query E q v sent = (r, sent') \<Longrightarrow> sent' = sent @ [(q, if truthy v then v else PDict [])]"
  using snd_execute_query [of E q v sent] by simp

lemma require2_absent:
  "absent_at result k1 k2 \<Longrightarrow> require2 result k1 k2 message path = Inl (GitHubClientError message)"
  by (cases result)
     (auto simp: absent_at_def require2_def absent2_def split: option.splits pyval.splits)

lemma require2_present:
  "payload_at result k1 k2 p \<Longrightarrow>
     require2 result k1 k2 message [k1, k2] = (if truthy p then Inr p else Inl (GitHubClientError message))"
  by (cases result)
     (auto simp: payload_at_def require2_def absent2_def split: option.splits pyval.splits)

lemma require2_nodes:
  "payload_at result k1 k2 (PDict c) \<Longrightarrow> map_of c (PStr k3) = Some ns \<Longrightarrow>
     require2 result k1 k2 message [k1, k2, k3] = Inr ns"
  by (cases result)
     (auto simp: payload_at_def require2_def absent2_def split: option.splits pyval.splits)

lemma prefix_snd_pureS: "prefix s (snd (pureS r s))"
  by (simp add: pureS_def)

lemma prefix_snd_execute_query: "prefix s (snd (execute_query E q v s))"
  by simp

lemma prefix_snd_bindS:
  "(\<And>s. prefix s (snd (m s))) \<Longrightarrow> (\<And>v s. prefix s (snd (f v s))) \<Longrightarrow> prefix s (snd (bindS m f s))"
proof -
  assume m: "\<And>s. prefix s (snd (m s))" and f: "\<And>v s. prefix s (snd (f v s))"
  obtain r s' where ms: "m s = (r, s')" by (cases "m s")
  have p: "prefix s s'" using m [of s] ms by simp
  show ?thesis
  proof (cases r)
    case (Inl e)
    then show ?thesis using ms p by (simp add: bindS_def)
  next
    case (Inr v)
    then have "bindS m f s = f v s'" using ms by (simp add: bindS_def)
    then show ?thesis using p f [of s' v] by (auto intro: prefix_order.trans)
  qed
qed

lemma lookup_first:
  assumes "\<And>v s. prefix s (snd (f v s))"
  shows "prefix (sent @ [project_id_request owner n]) (snd (bindS (get_project_node_id E owner n) f sent))"
proof -
  obtain r s' where ms: "get_project_node_id E owner n sent = (r, s')"
    by (cases "get_project_node_id E owner n sent")
  have s': "s' = sent @ [project_id_request owner n]"
    using snd_get_project_node_id [of E owner n sent] ms by simp
  show ?thesis
  proof (cases r)
    case (Inl e)
    then show ?thesis using ms s' by (simp add: bindS_def)
  next
    case (Inr v)
    then have "bindS (get_project_node_id E owner n) f sent = f v s'" using ms by (simp add: bindS_def)
    then show ?thesis using assms [of s' v] s' by simp
  qed
qed

lemmas prefix_steps = prefix_snd_bindS prefix_snd_pureS prefix_snd_execute_query

lemma numeric_prefix_only:
  assumes "prefix ''PVTNU_'' field_id"
  shows "\<not> prefix ''PVTSSF_'' field_id" "\<not> prefix ''PVTIF_'' field_id"
        "\<not> prefix ''PVTF_'' field_id" "\<not> prefix ''PVTDF_'' field_id"
  using assms by (auto elim!: prefixE)

lemma float_of_int_overflow: "float_of_int (2 ^ 1024) = Inl OverflowError"
  by code_simp

lemma wrong_type_invalid_input:
  "wrong_type field_id v \<Longrightarrow> invalid_input (field_value_input E field_id v)"
  by (auto simp: wrong_type_def invalid_input_def field_value_input_def split: if_splits elim!: prefixE)

lemmas run_defs = get_project_node_id_def project_id_request_def execute_query_def scripted_env_def
  scripted_def ok_body_def except_Exception_def body_data_def bindS_def pureS_def
  project_id_of_def absent2_def require2_def show_int_def digits.simps

lemma owner_type_of_organization:
  "node_at result ''organization'' i \<Longrightarrow> owner_type_of owner result = Inr (''organization'', i)"
  by (cases result)
     (auto simp: node_at_def owner_type_of_def split: option.splits pyval.splits)

lemma owner_type_of_user:
  "is_null_at result ''organization'' \<Longrightarrow> node_at result ''user'' i \<Longrightarrow>
     owner_type_of owner result = Inr (''user'', i)"
  by (cases result)
     (auto simp: node_at_def is_null_at_def owner_type_of_def split: option.splits pyval.splits)

lemma owner_type_of_neither:
  "is_null_at result ''organization'' \<Longrightarrow> is_null_at result ''user'' \<Longrightarrow>
     owner_type_of owner result
       = Inl (GitHubClientError (''Owner '' @ owner @ '' not found or type could not be determined.''))"
  by (cases result)
     (auto simp: is_null_at_def owner_type_of_def split: option.splits pyval.splits)

lemma require2_checked: "checked_payload result k1 k2 message p (require2 result k1 k2 message [k1, k2])"
  by (simp add: checked_payload_def require2_absent require2_present)

lemma repository_id:
  "node_at rr ''repository'' rid \<Longrightarrow>
   bindE (py_get rr ''repository'' PNone) (\<lambda>repository.
      if \<not> truthy repository then Inl (GitHubClientError m)
      else py_path rr [''repository'', ''id'']) = Inr rid"
  by (cases rr) (auto simp: node_at_def split: option.splits pyval.splits)

lemma issue_id:
  "payload_at ir ''repository'' ''issue'' (PDict ikvs) \<Longrightarrow> map_of ikvs (PStr ''id'') = Some iid \<Longrightarrow>
   require2 ir ''repository'' ''issue'' m [''repository'', ''issue'', ''id''] = Inr iid"
  by (rule require2_nodes)

section \<open>Owner kind\<close>

text \<open>
  Claim C3. The first response of \<^verbatim>\<open>get_projects\<close> decides the owner kind: when the
  organization branch resolves to a node, the kind is \<^verbatim>\<open>organization\<close> with the id of that
  node, whatever the user branch holds; when the organization branch is null and the user
  branch resolves to a node, the kind is \<^verbatim>\<open>user\<close> with the id of that node; when both are
  null, the operation raises the error that the owner was not found.
\<close>

theorem owner_kind_decision:
  "(node_at result ''organization'' i \<longrightarrow> owner_type_of owner result = Inr (''organization'', i))
 \<and> (is_null_at result ''organization'' \<and> node_at result ''user'' i \<longrightarrow>
       owner_type_of owner result = Inr (''user'', i))
 \<and> (is_null_at result ''organization'' \<and> is_null_at result ''user'' \<longrightarrow>
       owner_type_of owner result
         = Inl (GitHubClientError (''Owner '' @ owner @ '' not found or type could not be determined.'')))"
  by (cases result)
     (auto simp: node_at_def is_null_at_def owner_type_of_def split: option.splits pyval.splits)

theorem owner_kind_decision_witness:
  "node_at (PDict [(PStr ''organization'', PDict [(PStr ''id'', PStr ''O1'')]),
                   (PStr ''user'', PDict [(PStr ''id'', PStr ''U1'')])]) ''organization'' (PStr ''O1'')
   \<and> owner_type_of ''acme'' (PDict [(PStr ''organization'', PDict [(PStr ''id'', PStr ''O1'')]),
                   (PStr ''user'', PDict [(PStr ''id'', PStr ''U1'')])]) = Inr (''organization'', PStr ''O1'')"
  using owner_kind_decision [of "PDict [(PStr ''organization'', PDict [(PStr ''id'', PStr ''O1'')]),
                   (PStr ''user'', PDict [(PStr ''id'', PStr ''U1'')])]" "PStr ''O1''" "''acme''"]
  by (simp add: node_at_def)

section \<open>Project resolution first\<close>

text \<open>
  Claim C6. Each of the seven operations on a project sends the project-id lookup as its
  first request. When \<^verbatim>\<open>get_project_node_id\<close> fails, the operation ends with the same
  exception and with the same requests sent, the lookup being the last of them: there is no
  later request and no value is returned.
\<close>

theorem project_lookup_first_and_fail_fast:
  "prefix (sent @ [project_id_request owner n]) (snd (get_project_fields E owner n sent))
 \<and> prefix (sent @ [project_id_request owner n]) (snd (get_project_items E owner n limit sent))
 \<and> prefix (sent @ [project_id_request owner n])
      (snd (add_issue_to_project E owner n issue_owner issue_repo issue_number sent))
 \<and> prefix (sent @ [project_id_request owner n]) (snd (add_draft_issue_to_project E owner n title body sent))
 \<and> prefix (sent @ [project_id_request owner n])
      (snd (update_project_item_field E owner n item_id field_id v sent))
 \<and> prefix (sent @ [project_id_request owner n]) (snd (delete_project_item E owner n item_id sent))
 \<and> prefix (sent @ [project_id_request owner n])
      (snd (update_project_settings E owner n new_title description public sent))
 \<and> (get_project_node_id E owner n sent = (Inl e, sent') \<longrightarrow>
       sent' = sent @ [project_id_request owner n]
     \<and> get_project_fields E owner n sent = (Inl e, sent')
     \<and> get_project_items E owner n limit sent = (Inl e, sent')
     \<and> add_issue_to_project E owner n issue_owner issue_repo issue_number sent = (Inl e, sent')
     \<and> add_draft_issue_to_project E owner n title body sent = (Inl e, sent')
     \<and> update_project_item_field E owner n item_id field_id v sent = (Inl e, sent')
     \<and> delete_project_item E owner n item_id sent = (Inl e, sent')
     \<and> update_project_settings E owner n new_title description public sent = (Inl e, sent'))"
proof -
  have first:
    "prefix (sent @ [project_id_request owner n]) (snd (get_project_fields E owner n sent))"
    "prefix (sent @ [project_id_request owner n]) (snd (get_project_items E owner n limit sent))"
    "prefix (sent @ [project_id_request owner n])
      (snd (add_issue_to_project E owner n issue_owner issue_repo issue_number sent))"
    "prefix (sent @ [project_id_request owner n]) (snd (add_draft_issue_to_project E owner n title body sent))"
    "prefix (sent @ [project_id_request owner n])
      (snd (update_project_item_field E owner n item_id field_id v sent))"
    "prefix (sent @ [project_id_request owner n]) (snd (delete_project_item E owner n item_id sent))"
    "prefix (sent @ [project_id_request owner n])
      (snd (update_project_settings E owner n new_title description public sent))"
    unfolding get_project_fields_def get_project_items_def add_issue_to_project_def
      add_draft_issue_to_project_def update_project_item_field_def delete_project_item_def
      update_project_settings_def
    by (intro lookup_first prefix_steps)+
  have abort: "sent' = sent @ [project_id_request owner n]
     \<and> get_project_fields E owner n sent = (Inl e, sent')
     \<and> get_project_items E owner n limit sent = (Inl e, sent')
     \<and> add_issue_to_project E owner n issue_owner issue_repo issue_number sent = (Inl e, sent')
     \<and> add_draft_issue_to_project E owner n title body sent = (Inl e, sent')
     \<and> update_project_item_field E owner n item_id field_id v sent = (Inl e, sent')
     \<and> delete_project_item E owner n item_id sent = (Inl e, sent')
     \<and> update_project_settings E owner n new_title description public sent = (Inl e, sent')"
    if fail: "get_project_node_id E owner n sent = (Inl e, sent')"
  proof -
    have "sent' = sent @ [project_id_request owner n]"
      using snd_get_project_node_id [of E owner n sent] fail by simp
    then show ?thesis
      using fail
      by (simp add: get_project_fields_def get_project_items_def add_issue_to_project_def
          add_draft_issue_to_project_def update_project_item_field_def delete_project_item_def
          update_project_settings_def bindS_Inl)
  qed
  show ?thesis using first abort by blast
qed

theorem project_lookup_first_and_fail_fast_witness:
  "get_project_node_id (scripted_env [ok_body (PDict [(PStr ''organization'', PNone), (PStr ''user'', PNone)])])
     ''acme'' 7 []
   = (Inl (GitHubClientError ''Project 7 not found for owner acme.''), [project_id_request ''acme'' 7])
 \<and> delete_project_item (scripted_env [ok_body (PDict [(PStr ''organization'', PNone), (PStr ''user'', PNone)])])
     ''acme'' 7 ''I1'' []
   = (Inl (GitHubClientError ''Project 7 not found for owner acme.''), [project_id_request ''acme'' 7])"
proof -
  let ?E = "scripted_env [ok_body (PDict [(PStr ''organization'', PNone), (PStr ''user'', PNone)])]"
  have h: "get_project_node_id ?E ''acme'' 7 []
      = (Inl (GitHubClientError ''Project 7 not found for owner acme.''), [project_id_request ''acme'' 7])"
    by (simp add: get_project_node_id_def project_id_request_def execute_query_def scripted_env_def
        scripted_def ok_body_def except_Exception_def body_data_def bindS_def pureS_def
        project_id_of_def absent2_def show_int_def digits.simps)
  show ?thesis
    using h project_lookup_first_and_fail_fast [of "[]" "''acme''" 7 ?E _ _ _ _ _ _ "''I1''" _ _ _ _ _
        "GitHubClientError ''Project 7 not found for owner acme.''" "[project_id_request ''acme'' 7]"]
    by simp
qed

section \<open>Mutation input inference\<close>

text \<open>
  What \<^verbatim>\<open>field_value_input\<close> is for each prefix of the field id. The number prefix passes
  an int or a float to \<^verbatim>\<open>float\<close>, whose exception, if any, leaves the client as it is.
\<close>

lemma field_value_input_by_prefix:
  "(prefix ''PVTSSF_'' field_id \<longrightarrow> field_value_input E field_id v =
      (if is_str v then Inr (PDict [(PStr ''singleSelectOptionId'', v)])
       else Inl (GitHubClientError (''Invalid value type for single select field '' @ field_id
                @ ''. Expected option ID string.''))))
 \<and> (prefix ''PVTIF_'' field_id \<longrightarrow> field_value_input E field_id v =
      (if is_str v then Inr (PDict [(PStr ''iterationId'', v)])
       else Inl (GitHubClientError (''Invalid value type for iteration field '' @ field_id
                @ ''. Expected iteration ID string.''))))
 \<and> (prefix ''PVTF_'' field_id \<longrightarrow> field_value_input E field_id v =
      Inr (PDict [(PStr ''text'', PStr (py_str E v))]))
 \<and> (prefix ''PVTDF_'' field_id \<longrightarrow> field_value_input E field_id v =
      (if is_str v then Inr (PDict [(PStr ''date'', v)])
       else Inl (GitHubClientError (''Invalid value type for date field '' @ field_id
                @ ''. Expected date string (YYYY-MM-DD).''))))
 \<and> (prefix ''PVTNU_'' field_id \<longrightarrow> field_value_input E field_id v =
      (if is_int_or_float v then bindE (py_float v) (\<lambda>x. Inr (PDict [(PStr ''number'', PFloat x)]))
       else Inl (GitHubClientError (''Invalid value type for number field '' @ field_id
                @ ''. Expected int or float.''))))
 \<and> (\<not> prefix ''PVTSSF_'' field_id \<and> \<not> prefix ''PVTIF_'' field_id \<and> \<not> prefix ''PVTF_'' field_id
    \<and> \<not> prefix ''PVTDF_'' field_id \<and> \<not> prefix ''PVTNU_'' field_id \<longrightarrow>
      field_value_input E field_id v = Inr (PDict [(PStr ''text'', PStr (py_str E v))]))"
  by (cases v) (auto simp: field_value_input_def elim!: prefixE)

text \<open>
  Claim C1, at the input where the code leaves it. The field id \<^verbatim>\<open>PVTNU_1\<close> has the number
  prefix and the value \<open>2 ^ 1024\<close> is an int, so the claim expects the input
  \<^verbatim>\<open>{number: float(value)}\<close>; the value passes the type test, \<^verbatim>\<open>float\<close> raises
  \<^verbatim>\<open>OverflowError\<close>, and nothing catches it: no input is produced and the failure is not the
  client's \<^verbatim>\<open>GitHubClientError\<close>.
\<close>

theorem number_field_overflow:
  "field_value_input E ''PVTNU_1'' (PInt (2 ^ 1024)) = Inl OverflowError"
  by (simp add: field_value_input_def float_of_int_overflow [simplified])

text \<open>
  Claim C10. For every field id with the number prefix, a boolean value passes the type
  test and is sent as a float: \<^verbatim>\<open>True\<close> as 1.0 and \<^verbatim>\<open>False\<close> as 0.0.
\<close>

theorem numeric_field_accepts_bool:
  "prefix ''PVTNU_'' field_id \<Longrightarrow>
     field_value_input E field_id (PBool b) = Inr (PDict [(PStr ''number'', PFloat (if b then 1 else 0))])"
  by (simp add: field_value_input_def numeric_prefix_only)

theorem numeric_field_accepts_bool_witness:
  "prefix ''PVTNU_'' ''PVTNU_123''
   \<and> field_value_input (scripted_env []) ''PVTNU_123'' (PBool True) = Inr (PDict [(PStr ''number'', PFloat 1)])
   \<and> field_value_input (scripted_env []) ''PVTNU_123'' (PBool False) = Inr (PDict [(PStr ''number'', PFloat 0)])"
proof -
  have h: "prefix ''PVTNU_'' ''PVTNU_123''" by simp
  show ?thesis
    using h numeric_field_accepts_bool [OF h, of "scripted_env []" True]
      numeric_field_accepts_bool [OF h, of "scripted_env []" False]
    by simp
qed

section \<open>The type check and the network\<close>

text \<open>
  Claim C2, as the code has it. \<^verbatim>\<open>update_project_item_field\<close> resolves the project id before
  it looks at the value. For a field id with a recognized prefix and a value of the wrong
  type, once that lookup has succeeded the operation fails with the invalid-value error and
  the lookup is the only request sent: the mutation is never sent.
\<close>

theorem wrong_type_fails_before_mutation:
  assumes "get_project_node_id E owner n sent = (Inr project_id, sent')"
    and "wrong_type field_id v"
  shows "invalid_input (fst (update_project_item_field E owner n item_id field_id v sent))
       \<and> snd (update_project_item_field E owner n item_id field_id v sent)
           = sent @ [project_id_request owner n]"
proof -
  have s: "sent' = sent @ [project_id_request owner n]"
    using snd_get_project_node_id [of E owner n sent] assms(1) by simp
  obtain e where e: "field_value_input E field_id v = Inl e"
    using wrong_type_invalid_input [OF assms(2), of E]
    by (cases "field_value_input E field_id v") (auto simp: invalid_input_def)
  have "update_project_item_field E owner n item_id field_id v sent = (field_value_input E field_id v, sent')"
    using assms(1) e by (simp add: update_project_item_field_def bindS_Inr pureS_def)
  then show ?thesis
    using wrong_type_invalid_input [OF assms(2), of E] s by simp
qed

theorem wrong_type_fails_before_mutation_witness:
  "wrong_type ''PVTDF_9'' (PInt 5)
 \<and> update_project_item_field
      (scripted_env [ok_body (PDict [(PStr ''organization'', PNone),
         (PStr ''user'', PDict [(PStr ''projectV2'', PDict [(PStr ''id'', PStr ''P1'')])])])])
      ''acme'' 1 ''I1'' ''PVTDF_9'' (PInt 5) []
    = (Inl (GitHubClientError ''Invalid value type for date field PVTDF_9. Expected date string (YYYY-MM-DD).''),
       [project_id_request ''acme'' 1])"
proof -
  let ?E = "scripted_env [ok_body (PDict [(PStr ''organization'', PNone),
         (PStr ''user'', PDict [(PStr ''projectV2'', PDict [(PStr ''id'', PStr ''P1'')])])])]"
  have h: "get_project_node_id ?E ''acme'' 1 [] = (Inr (PStr ''P1''), [project_id_request ''acme'' 1])"
    by (simp add: run_defs)
  have w: "wrong_type ''PVTDF_9'' (PInt 5)"
    by (simp add: wrong_type_def)
  have f: "field_value_input ?E ''PVTDF_9'' (PInt 5)
      = Inl (GitHubClientError ''Invalid value type for date field PVTDF_9. Expected date string (YYYY-MM-DD).'')"
    by (simp add: field_value_input_def)
  show ?thesis
    using wrong_type_fails_before_mutation [OF h w, of "''I1''"] w h f
    by (simp add: update_project_item_field_def bindS_Inr pureS_def)
qed

text \<open>
  The claim as stated, zero requests on that path, fails: with the number prefix and the
  string \<^verbatim>\<open>not-a-number\<close> the operation raises the invalid-value error after one request,
  the project-id lookup.
\<close>

theorem type_check_after_lookup_counterexample:
  "wrong_type ''PVTNU_123'' (PStr ''not-a-number'')
 \<and> update_project_item_field
      (scripted_env [ok_body (PDict [(PStr ''organization'',
          PDict [(PStr ''projectV2'', PDict [(PStr ''id'', PStr ''P1'')])]), (PStr ''user'', PNone)])])
      ''acme'' 1 ''I1'' ''PVTNU_123'' (PStr ''not-a-number'') []
    = (Inl (GitHubClientError ''Invalid value type for number field PVTNU_123. Expected int or float.''),
       [(GetProjectId, PDict [(PStr ''login'', PStr ''acme''), (PStr ''number'', PInt 1)])])"
  by (simp add: wrong_type_def update_project_item_field_def field_value_input_def run_defs)

section \<open>One error type\<close>

text \<open>
  \<^verbatim>\<open>execute_query\<close> either raises \<^verbatim>\<open>GitHubClientError\<close> or returns the data of a body that
  is an object without \<^verbatim>\<open>errors\<close> and with \<^verbatim>\<open>data\<close> other than \<^verbatim>\<open>None\<close>.
\<close>

lemma execute_query_uniform:
  "(\<exists>m. fst (execute_query E q v sent) = Inl (GitHubClientError m))
 \<or> (\<exists>kvs d. post E sent (q, if truthy v then v else PDict []) = Body (PDict kvs)
        \<and> map_of kvs (PStr ''errors'') = None \<and> map_of kvs (PStr ''data'') = Some d \<and> d \<noteq> PNone
        \<and> fst (execute_query E q v sent) = Inr d)"
proof (cases "post E sent (q, if truthy v then v else PDict [])")
  case (Body result)
  then show ?thesis
    by (cases result)
       (auto simp: execute_query_def except_Exception_def body_data_def Let_def
          split: option.splits sum.splits)
qed (auto simp: execute_query_def Let_def)

text \<open>
  Claim C9, at the input where the code leaves it. The claim expects every failure of an
  operation to be a \<^verbatim>\<open>GitHubClientError\<close>. With the project found, the number prefix and the
  int \<open>2 ^ 1024\<close>, \<^verbatim>\<open>update_project_item_field\<close> ends in \<^verbatim>\<open>OverflowError\<close>, raised by
  \<^verbatim>\<open>float\<close> outside every \<^verbatim>\<open>try\<close> block, after the lookup and before the mutation.
\<close>

theorem overflow_escapes_update:
  "update_project_item_field
      (scripted_env [ok_body (PDict [(PStr ''organization'',
          PDict [(PStr ''projectV2'', PDict [(PStr ''id'', PStr ''P1'')])]), (PStr ''user'', PNone)])])
      ''acme'' 1 ''I1'' ''PVTNU_1'' (PInt (2 ^ 1024)) []
    = (Inl OverflowError, [(GetProjectId, PDict [(PStr ''login'', PStr ''acme''), (PStr ''number'', PInt 1)])])"
  by (simp add: update_project_item_field_def field_value_input_def run_defs
      float_of_int_overflow [simplified])

section \<open>Project settings\<close>

text \<open>
  Claim C8. For every combination of the optional settings, \<^verbatim>\<open>input_params\<close> holds the
  project id and exactly the settings that were given, in the order title, description,
  visibility, and no entry for a setting that is \<^verbatim>\<open>None\<close>; it is the \<^verbatim>\<open>input\<close> variable of
  the mutation request sent after the lookup.
\<close>

theorem settings_input_only_supplied:
  "input_params project_id title description public =
     [(PStr ''projectId'', project_id)]
     @ (case title of None \<Rightarrow> [] | Some t \<Rightarrow> [(PStr ''title'', PStr t)])
     @ (case description of None \<Rightarrow> [] | Some d \<Rightarrow> [(PStr ''shortDescription'', PStr d)])
     @ (case public of None \<Rightarrow> [] | Some b \<Rightarrow> [(PStr ''public'', PBool b)])
 \<and> (get_project_node_id E owner n sent = (Inr project_id, sent') \<longrightarrow>
      snd (update_project_settings E owner n title description public sent)
        = sent' @ [(UpdateProject,
             PDict [(PStr ''input'', PDict (input_params project_id title description public))])])"
  by (auto simp: input_params_def update_project_settings_def bindS_Inr snd_bindS_pureS
      split: option.splits)

theorem settings_input_only_supplied_witness:
  "input_params (PStr ''P1'') (Some ''Roadmap'') None (Some True)
     = [(PStr ''projectId'', PStr ''P1''), (PStr ''title'', PStr ''Roadmap''), (PStr ''public'', PBool True)]
 \<and> snd (update_project_settings
      (scripted_env [ok_body (PDict [(PStr ''organization'',
          PDict [(PStr ''projectV2'', PDict [(PStr ''id'', PStr ''P1'')])]), (PStr ''user'', PNone)])])
      ''acme'' 1 (Some ''Roadmap'') None (Some True) [])
     = [project_id_request ''acme'' 1,
        (UpdateProject, PDict [(PStr ''input'',
           PDict [(PStr ''projectId'', PStr ''P1''), (PStr ''title'', PStr ''Roadmap''),
                  (PStr ''public'', PBool True)])])]"
proof -
  let ?E = "scripted_env [ok_body (PDict [(PStr ''organization'',
          PDict [(PStr ''projectV2'', PDict [(PStr ''id'', PStr ''P1'')])]), (PStr ''user'', PNone)])]"
  have h: "get_project_node_id ?E ''acme'' 1 [] = (Inr (PStr ''P1''), [project_id_request ''acme'' 1])"
    by (simp add: run_defs)
  show ?thesis
    using h settings_input_only_supplied [of "PStr ''P1''" "Some ''Roadmap''" None "Some True" ?E
        "''acme''" 1 "[]" "[project_id_request ''acme'' 1]"]
    by simp
qed

section \<open>Listing projects\<close>

text \<open>
  Claim C5. \<^verbatim>\<open>get_projects\<close> sends the owner-type lookup first. When the organization branch
  of its response resolves, the second and last request is the organization-scoped listing
  with \<^verbatim>\<open>first\<close> = 50; when only the user branch resolves, it is the user-scoped listing
  with \<^verbatim>\<open>first\<close> = 50; when neither resolves, the operation fails after the lookup alone.
  The operation fails with the could-not-retrieve error when the \<^verbatim>\<open>projectsV2\<close> collection of
  the scoped response is missing or null, and returns the \<^verbatim>\<open>nodes\<close> of the collection when it
  is present, the empty list included.
\<close>

theorem list_projects_dispatch:
  assumes "execute_query E GetOwnerType (PDict [(PStr ''login'', PStr owner)]) sent = (Inr r1, s1)"
  shows
   "(node_at r1 ''organization'' i
       \<and> execute_query E GetOrgProjects (projects_variables owner) s1 = (Inr r2, s2) \<longrightarrow>
       s2 = sent @ [(GetOwnerType, PDict [(PStr ''login'', PStr owner)]),
                    (GetOrgProjects, PDict [(PStr ''login'', PStr owner), (PStr ''first'', PInt 50)])]
     \<and> (absent_at r2 ''organization'' ''projectsV2'' \<longrightarrow>
          get_projects E owner sent
            = (Inl (GitHubClientError (''Could not retrieve projects for organization '' @ owner)), s2))
     \<and> (payload_at r2 ''organization'' ''projectsV2'' (PDict c) \<and> map_of c (PStr ''nodes'') = Some ns \<longrightarrow>
          get_projects E owner sent = (Inr ns, s2)))
  \<and> (is_null_at r1 ''organization'' \<and> node_at r1 ''user'' i
       \<and> execute_query E GetUserProjects (projects_variables owner) s1 = (Inr r2, s2) \<longrightarrow>
       s2 = sent @ [(GetOwnerType, PDict [(PStr ''login'', PStr owner)]),
                    (GetUserProjects, PDict [(PStr ''login'', PStr owner), (PStr ''first'', PInt 50)])]
     \<and> (absent_at r2 ''user'' ''projectsV2'' \<longrightarrow>
          get_projects E owner sent
            = (Inl (GitHubClientError (''Could not retrieve projects for user '' @ owner)), s2))
     \<and> (payload_at r2 ''user'' ''projectsV2'' (PDict c) \<and> map_of c (PStr ''nodes'') = Some ns \<longrightarrow>
          get_projects E owner sent = (Inr ns, s2)))
  \<and> (is_null_at r1 ''organization'' \<and> is_null_at r1 ''user'' \<longrightarrow>
       get_projects E owner sent
         = (Inl (GitHubClientError (''Owner '' @ owner @ '' not found or type could not be determined.'')),
            sent @ [(GetOwnerType, PDict [(PStr ''login'', PStr owner)])]))"
proof -
  have s1: "s1 = sent @ [(GetOwnerType, PDict [(PStr ''login'', PStr owner)])]"
    using execute_query_sent [OF assms] by simp
  have org: "s2 = sent @ [(GetOwnerType, PDict [(PStr ''login'', PStr owner)]),
                    (GetOrgProjects, PDict [(PStr ''login'', PStr owner), (PStr ''first'', PInt 50)])]
     \<and> (absent_at r2 ''organization'' ''projectsV2'' \<longrightarrow>
          get_projects E owner sent
            = (Inl (GitHubClientError (''Could not retrieve projects for organization '' @ owner)), s2))
     \<and> (payload_at r2 ''organization'' ''projectsV2'' (PDict c) \<and> map_of c (PStr ''nodes'') = Some ns \<longrightarrow>
          get_projects E owner sent = (Inr ns, s2))"
    if n: "node_at r1 ''organization'' i"
      and q: "execute_query E GetOrgProjects (projects_variables owner) s1 = (Inr r2, s2)"
  proof -
    have s2: "s2 = s1 @ [(GetOrgProjects, PDict [(PStr ''login'', PStr owner), (PStr ''first'', PInt 50)])]"
      using execute_query_sent [OF q] by (simp add: projects_variables_def)
    have run: "get_projects E owner sent
        = (require2 r2 ''organization'' ''projectsV2''
             (''Could not retrieve projects for organization '' @ owner)
             [''organization'', ''projectsV2'', ''nodes''], s2)"
      using assms q owner_type_of_organization [OF n, of owner]
      by (simp add: get_projects_def bindS_Inr pureS_def)
    show ?thesis
      using s1 s2 run by (auto simp: require2_absent require2_nodes)
  qed
  have usr: "s2 = sent @ [(GetOwnerType, PDict [(PStr ''login'', PStr owner)]),
                    (GetUserProjects, PDict [(PStr ''login'', PStr owner), (PStr ''first'', PInt 50)])]
     \<and> (absent_at r2 ''user'' ''projectsV2'' \<longrightarrow>
          get_projects E owner sent
            = (Inl (GitHubClientError (''Could not retrieve projects for user '' @ owner)), s2))
     \<and> (payload_at r2 ''user'' ''projectsV2'' (PDict c) \<and> map_of c (PStr ''nodes'') = Some ns \<longrightarrow>
          get_projects E owner sent = (Inr ns, s2))"
    if z: "is_null_at r1 ''organization''" and n: "node_at r1 ''user'' i"
      and q: "execute_query E GetUserProjects (projects_variables owner) s1 = (Inr r2, s2)"
  proof -
    have s2: "s2 = s1 @ [(GetUserProjects, PDict [(PStr ''login'', PStr owner), (PStr ''first'', PInt 50)])]"
      using execute_query_sent [OF q] by (simp add: projects_variables_def)
    have run: "get_projects E owner sent
        = (require2 r2 ''user'' ''projectsV2''
             (''Could not retrieve projects for user '' @ owner)
             [''user'', ''projectsV2'', ''nodes''], s2)"
      using assms q owner_type_of_user [OF z n, of owner]
      by (simp add: get_projects_def bindS_Inr pureS_def)
    show ?thesis
      using s1 s2 run by (auto simp: require2_absent require2_nodes)
  qed
  have none: "get_projects E owner sent
         = (Inl (GitHubClientError (''Owner '' @ owner @ '' not found or type could not be determined.'')),
            sent @ [(GetOwnerType, PDict [(PStr ''login'', PStr owner)])])"
    if z: "is_null_at r1 ''organization''" and u: "is_null_at r1 ''user''"
    using assms s1 owner_type_of_neither [OF z u, of owner]
    by (simp add: get_projects_def bindS_Inr pureS_def)
  show ?thesis using org usr none by blast
qed

theorem list_projects_dispatch_witness:
  "get_projects
     (scripted_env
        [ok_body (PDict [(PStr ''organization'', PNone),
                         (PStr ''user'', PDict [(PStr ''id'', PStr ''U1''), (PStr ''login'', PStr ''acme'')])]),
         ok_body (PDict [(PStr ''user'', PDict [(PStr ''projectsV2'', PDict [(PStr ''nodes'', PList [])])])])])
     ''acme'' []
   = (Inr (PList []),
      [(GetOwnerType, PDict [(PStr ''login'', PStr ''acme'')]),
       (GetUserProjects, PDict [(PStr ''login'', PStr ''acme''), (PStr ''first'', PInt 50)])])"
proof -
  let ?r1 = "PDict [(PStr ''organization'', PNone),
                    (PStr ''user'', PDict [(PStr ''id'', PStr ''U1''), (PStr ''login'', PStr ''acme'')])]"
  let ?r2 = "PDict [(PStr ''user'', PDict [(PStr ''projectsV2'', PDict [(PStr ''nodes'', PList [])])])]"
  let ?E = "scripted_env [ok_body ?r1, ok_body ?r2]"
  let ?s1 = "[(GetOwnerType, PDict [(PStr ''login'', PStr ''acme'')])]"
  let ?s2 = "[(GetOwnerType, PDict [(PStr ''login'', PStr ''acme'')]),
       (GetUserProjects, PDict [(PStr ''login'', PStr ''acme''), (PStr ''first'', PInt 50)])]"
  have q1: "execute_query ?E GetOwnerType (PDict [(PStr ''login'', PStr ''acme'')]) [] = (Inr ?r1, ?s1)"
    by (simp add: run_defs)
  have q2: "execute_query ?E GetUserProjects (projects_variables ''acme'') ?s1 = (Inr ?r2, ?s2)"
    by (simp add: run_defs projects_variables_def)
  have z: "is_null_at ?r1 ''organization''" by (simp add: is_null_at_def)
  have n: "node_at ?r1 ''user'' (PStr ''U1'')" by (simp add: node_at_def)
  have p: "payload_at ?r2 ''user'' ''projectsV2'' (PDict [(PStr ''nodes'', PList [])])"
    by (simp add: payload_at_def)
  show ?thesis
    using list_projects_dispatch [OF q1, of "PStr ''U1''" ?r2 ?s2 "[(PStr ''nodes'', PList [])]" "PList []"]
      q2 z n p
    by simp
qed

section \<open>Checked mutation payloads\<close>

text \<open>
  Claim C7, as the code has it. For each of the six mutation operations, once the lookups
  before the mutation have succeeded and the mutation call has returned its data, the
  operation fails with its failure message when the nested payload is missing, null or
  empty, and returns the nested payload when it is present and not empty. No request
  follows the mutation.
\<close>

theorem mutation_payload_checked:
  "(execute_query E GetRepositoryId (PDict [(PStr ''owner'', PStr owner), (PStr ''name'', PStr repo)]) sent
       = (Inr rr, s1)
     \<and> node_at rr ''repository'' rid
     \<and> execute_query E CreateIssue
         (PDict [(PStr ''repositoryId'', rid), (PStr ''title'', PStr title), (PStr ''body'', PStr body)]) s1
       = (Inr result, s2) \<longrightarrow>
     checked_payload result ''createIssue'' ''issue'' (''Failed to create issue in '' @ owner @ ''/'' @ repo) p
       (fst (create_issue E owner repo title body sent))
     \<and> snd (create_issue E owner repo title body sent) = s2)
 \<and> (get_project_node_id E owner n sent = (Inr project_id, s1)
     \<and> execute_query E GetIssueId
         (PDict [(PStr ''owner'', PStr issue_owner), (PStr ''repo'', PStr issue_repo),
                 (PStr ''number'', PInt issue_number)]) s1
       = (Inr ir, s2)
     \<and> payload_at ir ''repository'' ''issue'' (PDict ikvs) \<and> map_of ikvs (PStr ''id'') = Some issue_id
     \<and> execute_query E AddItemToProject
         (PDict [(PStr ''projectId'', project_id), (PStr ''contentId'', issue_id)]) s2
       = (Inr result, s3) \<longrightarrow>
     checked_payload result ''addProjectV2ItemById'' ''item''
       (''Failed to add issue '' @ show_int issue_number @ '' to project '' @ show_int n) p
       (fst (add_issue_to_project E owner n issue_owner issue_repo issue_number sent))
     \<and> snd (add_issue_to_project E owner n issue_owner issue_repo issue_number sent) = s3)
 \<and> (get_project_node_id E owner n sent = (Inr project_id, s1)
     \<and> execute_query E AddDraftIssueToProject
         (PDict [(PStr ''projectId'', project_id), (PStr ''title'', PStr title), (PStr ''body'', PStr body)]) s1
       = (Inr result, s2) \<longrightarrow>
     checked_payload result ''addProjectV2DraftIssue'' ''projectItem''
       (''Failed to add draft issue to project '' @ show_int n) p
       (fst (add_draft_issue_to_project E owner n title body sent))
     \<and> snd (add_draft_issue_to_project E owner n title body sent) = s2)
 \<and> (get_project_node_id E owner n sent = (Inr project_id, s1)
     \<and> field_value_input E field_id v = Inr field_value
     \<and> execute_query E UpdateProjectFieldValue
         (PDict [(PStr ''projectId'', project_id), (PStr ''itemId'', PStr item_id),
                 (PStr ''fieldId'', PStr field_id), (PStr ''value'', field_value)]) s1
       = (Inr result, s2) \<longrightarrow>
     checked_payload result ''updateProjectV2ItemFieldValue'' ''projectV2Item''
       (''Failed to update field value for item '' @ item_id) p
       (fst (update_project_item_field E owner n item_id field_id v sent))
     \<and> snd (update_project_item_field E owner n item_id field_id v sent) = s2)
 \<and> (get_project_node_id E owner n sent = (Inr project_id, s1)
     \<and> execute_query E DeleteProjectItem
         (PDict [(PStr ''projectId'', project_id), (PStr ''itemId'', PStr item_id)]) s1
       = (Inr result, s2) \<longrightarrow>
     checked_payload result ''deleteProjectV2Item'' ''deletedItemId''
       (''Failed to delete item '' @ item_id) p
       (fst (delete_project_item E owner n item_id sent))
     \<and> snd (delete_project_item E owner n item_id sent) = s2)
 \<and> (get_project_node_id E owner n sent = (Inr project_id, s1)
     \<and> execute_query E UpdateProject
         (PDict [(PStr ''input'', PDict (input_params project_id new_title description public))]) s1
       = (Inr result, s2) \<longrightarrow>
     checked_payload result ''updateProjectV2'' ''projectV2''
       (''Failed to update project '' @ show_int n) p
       (fst (update_project_settings E owner n new_title description public sent))
     \<and> snd (update_project_settings E owner n new_title description public sent) = s2)"
  by (auto simp: create_issue_def add_issue_to_project_def add_draft_issue_to_project_def
      update_project_item_field_def delete_project_item_def update_project_settings_def
      bindS_Inr pureS_def repository_id issue_id require2_checked)

theorem mutation_payload_checked_witness:
  "delete_project_item
     (scripted_env
        [ok_body (PDict [(PStr ''organization'', PNone),
           (PStr ''user'', PDict [(PStr ''projectV2'', PDict [(PStr ''id'', PStr ''P1'')])])]),
         ok_body (PDict [(PStr ''deleteProjectV2Item'', PDict [(PStr ''deletedItemId'', PStr ''I1'')])])])
     ''acme'' 1 ''I1'' []
   = (Inr (PStr ''I1''),
      [project_id_request ''acme'' 1,
       (DeleteProjectItem, PDict [(PStr ''projectId'', PStr ''P1''), (PStr ''itemId'', PStr ''I1'')])])"
proof -
  let ?r = "PDict [(PStr ''deleteProjectV2Item'', PDict [(PStr ''deletedItemId'', PStr ''I1'')])]"
  let ?E = "scripted_env
        [ok_body (PDict [(PStr ''organization'', PNone),
           (PStr ''user'', PDict [(PStr ''projectV2'', PDict [(PStr ''id'', PStr ''P1'')])])]),
         ok_body ?r]"
  let ?s1 = "[project_id_request ''acme'' 1]"
  let ?s2 = "[project_id_request ''acme'' 1,
       (DeleteProjectItem, PDict [(PStr ''projectId'', PStr ''P1''), (PStr ''itemId'', PStr ''I1'')])]"
  have h: "get_project_node_id ?E ''acme'' 1 [] = (Inr (PStr ''P1''), ?s1)"
    by (simp add: run_defs)
  have q: "execute_query ?E DeleteProjectItem
         (PDict [(PStr ''projectId'', PStr ''P1''), (PStr ''itemId'', PStr ''I1'')]) ?s1 = (Inr ?r, ?s2)"
    by (simp add: run_defs)
  have p: "payload_at ?r ''deleteProjectV2Item'' ''deletedItemId'' (PStr ''I1'')"
    by (simp add: payload_at_def)
  have "checked_payload ?r ''deleteProjectV2Item'' ''deletedItemId'' (''Failed to delete item '' @ ''I1'')
          (PStr ''I1'') (fst (delete_project_item ?E ''acme'' 1 ''I1'' []))
      \<and> snd (delete_project_item ?E ''acme'' 1 ''I1'' []) = ?s2"
    using mutation_payload_checked [where E = ?E and owner = "''acme''" and n = 1 and sent = "[]"
        and project_id = "PStr ''P1''" and ?s1.0 = ?s1 and item_id = "''I1''" and result = ?r
        and ?s2.0 = ?s2 and p = "PStr ''I1''"] h q
    by blast
  then show ?thesis
    using p by (simp add: checked_payload_def prod_eq_iff)
qed

text \<open>
  The claim as stated, a payload that is present is returned, fails for a payload that is
  present and empty: with \<^verbatim>\<open>deletedItemId\<close> the empty string, \<^verbatim>\<open>delete_project_item\<close> raises
  its failure error.
\<close>

theorem empty_payload_counterexample:
  "payload_at (PDict [(PStr ''deleteProjectV2Item'', PDict [(PStr ''deletedItemId'', PStr '''')])])
     ''deleteProjectV2Item'' ''deletedItemId'' (PStr '''')
 \<and> delete_project_item
     (scripted_env
        [ok_body (PDict [(PStr ''organization'', PNone),
           (PStr ''user'', PDict [(PStr ''projectV2'', PDict [(PStr ''id'', PStr ''P1'')])])]),
         ok_body (PDict [(PStr ''deleteProjectV2Item'', PDict [(PStr ''deletedItemId'', PStr '''')])])])
     ''acme'' 1 ''I1'' []
   = (Inl (GitHubClientError ''Failed to delete item I1''),
      [(GetProjectId, PDict [(PStr ''login'', PStr ''acme''), (PStr ''number'', PInt 1)]),
       (DeleteProjectItem, PDict [(PStr ''projectId'', PStr ''P1''), (PStr ''itemId'', PStr ''I1'')])])"
  by (simp add: payload_at_def delete_project_item_def run_defs)

section \<open>Field value normalization\<close>

subsection \<open>Assignment to a dict\<close>

lemma map_fst_dict_set:
  "map fst (dict_set (PStr k) v kvs)
     = (if PStr k \<in> set (map fst kvs) then map fst kvs else map fst kvs @ [PStr k])"
proof (induction kvs)
  case Nil
  show ?case by simp
next
  case (Cons kv kvs)
  obtain a b where kv: "kv = (a, b)" by (cases kv)
  show ?case
  proof (cases "a = PStr k")
    case True
    then show ?thesis using kv by simp
  next
    case False
    then show ?thesis using kv Cons.IH by (cases "PStr k \<in> set (map fst kvs)") simp_all
  qed
qed

lemma keys_dict_set: "fst ` set (dict_set (PStr k) v kvs) = insert (PStr k) (fst ` set kvs)"
proof -
  have "set (map fst (dict_set (PStr k) v kvs)) = insert (PStr k) (set (map fst kvs))"
    unfolding map_fst_dict_set by auto
  then show ?thesis by simp
qed

lemma distinct_dict_set: "distinct (map fst (dict_set (PStr k) v kvs)) = distinct (map fst kvs)"
  by (simp add: map_fst_dict_set)

lemma map_of_dict_set: "map_of (dict_set (PStr k) v kvs) = (map_of kvs)(PStr k \<mapsto> v)"
  by (induction kvs) (auto simp: fun_eq_iff)

subsection \<open>One record, the loop over the records, the loop over the items\<close>

lemma value_by_discriminator:
  "bindE (py_get (PDict kvs) ''__typename'' PNone) (\<lambda>fv_type.
     bindE
       (if fv_type = PStr ''ProjectV2ItemFieldTextValue'' then py_get (PDict kvs) ''text'' (PStr ''N/A'')
        else if fv_type = PStr ''ProjectV2ItemFieldDateValue'' then py_get (PDict kvs) ''date'' (PStr ''N/A'')
        else if fv_type = PStr ''ProjectV2ItemFieldSingleSelectValue'' then py_get (PDict kvs) ''name'' (PStr ''N/A'')
        else if fv_type = PStr ''ProjectV2ItemFieldNumberValue'' then py_get (PDict kvs) ''number'' (PStr ''N/A'')
        else if fv_type = PStr ''ProjectV2ItemFieldIterationValue'' then
          bindE (py_get (PDict kvs) ''title'' (PStr ''N/A'')) (\<lambda>title.
          bindE (py_get (PDict kvs) ''startDate'' (PStr ''N/A'')) (\<lambda>start_date.
            Inr (PStr (py_str E title @ '' (Start: '' @ py_str E start_date @ '')''))))
        else Inr (PStr ''N/A''))
       G) = G (scalar_by_discriminator E kvs)"
proof (cases "map_of kvs (PStr ''__typename'')")
  case None
  then show ?thesis
    by (simp add: scalar_by_discriminator_def discriminator_of_def)
next
  case (Some t)
  show ?thesis
  proof (cases t)
    case (PStr s)
    then show ?thesis
      using Some
      by (simp add: scalar_by_discriminator_def discriminator_of_def entry_or_sentinel_def)
  qed (use Some in \<open>simp_all add: scalar_by_discriminator_def discriminator_of_def\<close>)
qed

lemma field_name_of_record:
  assumes "field_value_record (PDict kvs)"
  shows "bindE (py_get (PDict kvs) ''field'' (PDict [])) (\<lambda>field.
           py_get field ''name'' (PStr ''UnknownField'')) = Inr (PStr (field_name_or_sentinel kvs))"
proof (cases "map_of kvs (PStr ''field'')")
  case None
  then show ?thesis by (simp add: field_name_or_sentinel_def)
next
  case (Some field)
  show ?thesis
  proof (cases field)
    case (PDict f)
    show ?thesis
    proof (cases "map_of f (PStr ''name'')")
      case None
      then show ?thesis using Some PDict by (simp add: field_name_or_sentinel_def)
    next
      case (Some name)
      then show ?thesis
        using \<open>map_of kvs (PStr ''field'') = Some field\<close> PDict assms
        by (cases name) (simp_all add: field_name_or_sentinel_def)
    qed
  qed (use Some assms in simp_all)
qed

lemma field_value_entry_record:
  assumes "field_value_record (PDict kvs)"
  shows "field_value_entry E (PDict kvs)
           = Inr (PStr (field_name_or_sentinel kvs), scalar_by_discriminator E kvs)"
proof -
  obtain field where f: "py_get (PDict kvs) ''field'' (PDict []) = Inr field" by simp
  have n: "py_get field ''name'' (PStr ''UnknownField'') = Inr (PStr (field_name_or_sentinel kvs))"
    using field_name_of_record [OF assms] f by simp
  show ?thesis
    unfolding field_value_entry_def
    by (simp only: f n bindE_simps value_by_discriminator)
qed

lemma field_value_entry_record_entry:
  "field_value_record fv \<Longrightarrow>
     field_value_entry E fv = Inr (PStr (fst (record_entry E fv)), snd (record_entry E fv))"
  by (cases fv) (simp_all add: field_value_entry_record)

lemma process_field_values_records:
  "\<forall>fv \<in> set fvs. field_value_record fv \<Longrightarrow>
   \<exists>pv. process_field_values E fvs acc = Inr pv
      \<and> (\<forall>n. map_of pv (PStr n)
            = (case map_of (rev (map (record_entry E) fvs)) n of Some v \<Rightarrow> Some v | None \<Rightarrow> map_of acc (PStr n)))
      \<and> fst ` set pv = fst ` set acc \<union> (\<lambda>fv. PStr (fst (record_entry E fv))) ` set fvs
      \<and> distinct (map fst pv) = distinct (map fst acc)"
proof (induction fvs arbitrary: acc)
  case Nil
  then show ?case by simp
next
  case (Cons fv fvs)
  let ?k = "fst (record_entry E fv)" and ?v = "snd (record_entry E fv)"
  let ?acc = "dict_set (PStr ?k) ?v acc"
  have step: "process_field_values E (fv # fvs) acc = process_field_values E fvs ?acc"
    using Cons.prems by (simp add: field_value_entry_record_entry py_setitem_def)
  obtain pv where pv: "process_field_values E fvs ?acc = Inr pv"
      and m: "\<forall>n. map_of pv (PStr n)
            = (case map_of (rev (map (record_entry E) fvs)) n of Some v \<Rightarrow> Some v
               | None \<Rightarrow> map_of ?acc (PStr n))"
      and k: "fst ` set pv = fst ` set ?acc \<union> (\<lambda>fv. PStr (fst (record_entry E fv))) ` set fvs"
      and d: "distinct (map fst pv) = distinct (map fst ?acc)"
    using Cons.IH [of ?acc] Cons.prems by auto
  have m': "map_of pv (PStr n)
      = (case map_of (rev (map (record_entry E) (fv # fvs))) n of Some v \<Rightarrow> Some v
         | None \<Rightarrow> map_of acc (PStr n))" for n
    using m by (cases "record_entry E fv") (auto simp: map_of_dict_set map_add_def split: option.splits)
  have k': "fst ` set pv = fst ` set acc \<union> (\<lambda>fv. PStr (fst (record_entry E fv))) ` set (fv # fvs)"
    using k by (auto simp: keys_dict_set)
  have d': "distinct (map fst pv) = distinct (map fst acc)"
    using d by (simp add: distinct_dict_set)
  have "process_field_values E (fv # fvs) acc = Inr pv"
    using step pv by simp
  then show ?case
    using m' k' d' by (intro exI [of _ pv]) simp
qed

lemma process_item_records:
  assumes "payload_at (PDict ikvs) ''fieldValues'' ''nodes'' (PList fvs)" and "fvs \<noteq> []"
    and "\<forall>fv \<in> set fvs. field_value_record fv"
  shows "\<exists>pv. process_item E (PDict ikvs) = Inr (PDict (dict_set (PStr ''fieldValues'') (PDict pv) ikvs))
      \<and> (\<forall>n. map_of pv (PStr n) = field_mapping E fvs n)
      \<and> fst ` set pv = (\<lambda>fv. PStr (fst (record_entry E fv))) ` set fvs
      \<and> distinct (map fst pv)"
proof -
  obtain pv where pv: "process_field_values E fvs [] = Inr pv"
      and m: "\<forall>n. map_of pv (PStr n)
            = (case map_of (rev (map (record_entry E) fvs)) n of Some v \<Rightarrow> Some v
               | None \<Rightarrow> map_of ([] :: (pyval \<times> pyval) list) (PStr n))"
      and k: "fst ` set pv = fst ` set ([] :: (pyval \<times> pyval) list)
                \<union> (\<lambda>fv. PStr (fst (record_entry E fv))) ` set fvs"
      and d: "distinct (map fst pv) = distinct (map fst ([] :: (pyval \<times> pyval) list))"
    using process_field_values_records [OF assms(3), of E "[]"] by blast
  obtain f where f: "map_of ikvs (PStr ''fieldValues'') = Some (PDict f)"
      and nodes: "map_of f (PStr ''nodes'') = Some (PList fvs)"
    using assms(1) by (auto simp: payload_at_def split: option.splits pyval.splits)
  have "f \<noteq> []" using nodes by auto
  then have run: "process_item E (PDict ikvs) = Inr (PDict (dict_set (PStr ''fieldValues'') (PDict pv) ikvs))"
    using f nodes assms(2) pv
    by (simp add: process_item_def py_setitem_def)
  have "map_of pv (PStr n) = field_mapping E fvs n" for n
    using m by (simp add: field_mapping_def split: option.splits)
  then show ?thesis using run k d by auto
qed

lemma process_item_unchanged:
  assumes "absent_at (PDict ikvs) ''fieldValues'' ''nodes''
         \<or> payload_at (PDict ikvs) ''fieldValues'' ''nodes'' (PList [])"
  shows "process_item E (PDict ikvs) = Inr (PDict ikvs)"
proof (cases "map_of ikvs (PStr ''fieldValues'')")
  case None
  then show ?thesis by (simp add: process_item_def)
next
  case (Some fv)
  show ?thesis
  proof (cases fv)
    case (PDict f)
    show ?thesis
    proof (cases "map_of f (PStr ''nodes'')")
      case None
      then show ?thesis using Some PDict by (simp add: process_item_def)
    next
      case (Some nodes)
      then have "nodes = PNone \<or> nodes = PList []"
        using assms \<open>map_of ikvs (PStr ''fieldValues'') = Some fv\<close> PDict
        by (auto simp: absent_at_def payload_at_def)
      then show ?thesis
        using Some \<open>map_of ikvs (PStr ''fieldValues'') = Some fv\<close> PDict
        by (auto simp: process_item_def)
    qed
  qed (use Some assms in \<open>auto simp: process_item_def absent_at_def payload_at_def\<close>)
qed

lemma process_items_all2:
  "list_all2 (\<lambda>item item'. process_item E item = Inr item') items items' \<Longrightarrow>
     process_items E items = Inr items'"
  by (induction items items' rule: list_all2_induct) simp_all

lemma get_project_items_run:
  assumes "get_project_node_id E owner n sent = (Inr project_id, s1)"
    and "execute_query E GetProjectItems
           (PDict [(PStr ''projectId'', project_id), (PStr ''first'', PInt limit)]) s1 = (Inr result, s2)"
    and "payload_at result ''node'' ''items'' (PDict c)" and "map_of c (PStr ''nodes'') = Some (PList items)"
    and "list_all2 (\<lambda>item item'. process_item E item = Inr item') items items'"
  shows "get_project_items E owner n limit sent = (Inr (PList items'), s2)"
  using assms(1,2) require2_nodes [OF assms(3,4)] process_items_all2 [OF assms(5)]
  by (simp add: get_project_items_def bindS_Inr pureS_def normalize_items_def)

text \<open>
  Claim C4, as the code has it. A field-value record is mapped to its field name, the
  sentinel \<^verbatim>\<open>UnknownField\<close> when the name is missing, and to the scalar its own discriminator
  selects: the text, the date, the name of the selected option, the number, the string
  \<^verbatim>\<open>title (Start: startDate)\<close> of an iteration, and \<^verbatim>\<open>N/A\<close> for any other discriminator.
  For an item whose sequence of field values is not empty, the \<^verbatim>\<open>fieldValues\<close> entry is
  replaced by a dict whose keys are the field names of the records, each once, and whose
  value at a name is that of the last record of the name. An item whose sequence is
  missing, null or empty is left as it is. \<^verbatim>\<open>get_project_items\<close> returns the items so
  processed, in order.
\<close>

theorem field_values_normalized:
  "(field_value_record (PDict kvs) \<longrightarrow>
      field_value_entry E (PDict kvs)
        = Inr (PStr (field_name_or_sentinel kvs), scalar_by_discriminator E kvs))
 \<and> (payload_at (PDict ikvs) ''fieldValues'' ''nodes'' (PList fvs) \<and> fvs \<noteq> []
      \<and> (\<forall>fv \<in> set fvs. field_value_record fv) \<longrightarrow>
      (\<exists>pv. process_item E (PDict ikvs) = Inr (PDict (dict_set (PStr ''fieldValues'') (PDict pv) ikvs))
         \<and> (\<forall>n. map_of pv (PStr n) = field_mapping E fvs n)
         \<and> fst ` set pv = (\<lambda>fv. PStr (fst (record_entry E fv))) ` set fvs
         \<and> distinct (map fst pv)))
 \<and> (absent_at (PDict ikvs) ''fieldValues'' ''nodes''
      \<or> payload_at (PDict ikvs) ''fieldValues'' ''nodes'' (PList []) \<longrightarrow>
      process_item E (PDict ikvs) = Inr (PDict ikvs))
 \<and> (get_project_node_id E owner n sent = (Inr project_id, s1)
      \<and> execute_query E GetProjectItems
           (PDict [(PStr ''projectId'', project_id), (PStr ''first'', PInt limit)]) s1 = (Inr result, s2)
      \<and> payload_at result ''node'' ''items'' (PDict c) \<and> map_of c (PStr ''nodes'') = Some (PList items)
      \<and> list_all2 (\<lambda>item item'. process_item E item = Inr item') items items' \<longrightarrow>
      get_project_items E owner n limit sent = (Inr (PList items'), s2))"
  using field_value_entry_record [of kvs E] process_item_records [of ikvs fvs E]
    process_item_unchanged [of ikvs E]
    get_project_items_run [of E owner n sent project_id s1 limit result s2 c items items']
  by blast

theorem field_values_normalized_witness:
  "field_value_entry (scripted_env [])
     (PDict [(PStr ''__typename'', PStr ''ProjectV2ItemFieldIterationValue''),
             (PStr ''title'', PStr ''Sprint 4''), (PStr ''startDate'', PStr ''2025-01-01''),
             (PStr ''duration'', PInt 14),
             (PStr ''field'', PDict [(PStr ''name'', PStr ''Iteration'')])])
   = Inr (PStr ''Iteration'', PStr ''Sprint 4 (Start: 2025-01-01)'')"
proof -
  let ?kvs = "[(PStr ''__typename'', PStr ''ProjectV2ItemFieldIterationValue''),
             (PStr ''title'', PStr ''Sprint 4''), (PStr ''startDate'', PStr ''2025-01-01''),
             (PStr ''duration'', PInt 14),
             (PStr ''field'', PDict [(PStr ''name'', PStr ''Iteration'')])]"
  have r: "field_value_record (PDict ?kvs)" by simp
  have n: "field_name_or_sentinel ?kvs = ''Iteration''"
    by (simp add: field_name_or_sentinel_def)
  have v: "scalar_by_discriminator (scripted_env []) ?kvs = PStr ''Sprint 4 (Start: 2025-01-01)''"
    by (simp add: scalar_by_discriminator_def discriminator_of_def entry_or_sentinel_def)
  from field_values_normalized [of ?kvs "scripted_env []"] r
  have "field_value_entry (scripted_env []) (PDict ?kvs)
        = Inr (PStr (field_name_or_sentinel ?kvs), scalar_by_discriminator (scripted_env []) ?kvs)"
    by blast
  then show ?thesis by (simp only: n v)
qed

text \<open>
  The claim as stated, the mapping replaces the sequence of every item, fails for an item
  without field values: it is returned with \<^verbatim>\<open>fieldValues\<close> still the object that holds the
  empty \<^verbatim>\<open>nodes\<close> list.
\<close>

theorem empty_field_values_counterexample:
  "get_project_items
     (scripted_env
        [ok_body (PDict [(PStr ''organization'', PNone),
           (PStr ''user'', PDict [(PStr ''projectV2'', PDict [(PStr ''id'', PStr ''P1'')])])]),
         ok_body (PDict [(PStr ''node'', PDict [(PStr ''items'', PDict [(PStr ''nodes'',
           PList [PDict [(PStr ''id'', PStr ''I1''),
                         (PStr ''fieldValues'', PDict [(PStr ''nodes'', PList [])])]])])])])])
     ''acme'' 1 20 []
   = (Inr (PList [PDict [(PStr ''id'', PStr ''I1''),
                         (PStr ''fieldValues'', PDict [(PStr ''nodes'', PList [])])]]),
      [(GetProjectId, PDict [(PStr ''login'', PStr ''acme''), (PStr ''number'', PInt 1)]),
       (GetProjectItems, PDict [(PStr ''projectId'', PStr ''P1''), (PStr ''first'', PInt 20)])])"
  by (simp add: get_project_items_def normalize_items_def process_item_def run_defs)

end
